theory Spec2Isabelle
  imports Main
begin

section \<open>The relational schema\<close>

text \<open>
  The two migrations define six tables. A \<open>uuid\<close> is an opaque identifier (the TypeScript
  side types it \<open>string\<close>), a \<open>timestamptz\<close> is a point in time in microseconds, the
  store's resolution. A nullable column is an \<open>option\<close>. The column
  \<open>friends.status\<close> is \<open>NOT NULL\<close> with \<open>CHECK (status IN ('pending', 'accepted'))\<close>,
  so its domain is the two-element type \<open>friend_status\<close>; \<open>posts.visibility\<close> has neither
  a check nor \<open>NOT NULL\<close>, so it is any text or NULL.
  The \<open>created_at\<close> columns are filled by their default \<open>now()\<close>: no statement of the
  client writes them. Columns whose name occurs in several tables carry the table's
  initial.
\<close>

type_synonym uuid = string
type_synonym timestamptz = int

datatype friend_status = Pending | Accepted

record profiles_row =
  pr_id :: uuid
  username :: string
  full_name :: "string option"
  avatar_url :: "string option"
  bio :: "string option"
  pr_created_at :: timestamptz

record posts_row =
  p_id :: uuid
  author_id :: uuid
  p_content :: string
  image_url :: "string option"
  p_created_at :: timestamptz
  updated_at :: timestamptz
  visibility :: "string option"

record likes_row =
  l_id :: uuid
  l_post_id :: uuid
  l_user_id :: uuid
  l_created_at :: timestamptz

record comments_row =
  c_id :: uuid
  c_post_id :: uuid
  c_user_id :: uuid
  c_content :: string
  c_created_at :: timestamptz

record friends_row =
  f_id :: uuid
  sender_id :: uuid
  receiver_id :: uuid
  status :: friend_status
  f_created_at :: timestamptz

record shared_posts_row =
  s_id :: uuid
  s_post_id :: uuid
  s_user_id :: uuid
  s_created_at :: timestamptz

record database =
  profiles :: "profiles_row list"
  posts :: "posts_row list"
  likes :: "likes_row list"
  comments :: "comments_row list"
  friends :: "friends_row list"
  shared_posts :: "shared_posts_row list"

section \<open>SQL's three-valued logic\<close>

text \<open>
  A policy expression is evaluated in SQL's logic, where a comparison with NULL is NULL
  (\<open>None\<close>) and a row passes a policy only when the expression is true. \<open>auth.uid()\<close>
  is NULL for an anonymous caller.
\<close>

type_synonym sql_bool = "bool option"

definition sql_eq :: "'a option \<Rightarrow> 'a option \<Rightarrow> sql_bool" where
  "sql_eq a b = (case a of None \<Rightarrow> None
                 | Some x \<Rightarrow> (case b of None \<Rightarrow> None | Some y \<Rightarrow> Some (x = y)))"

definition sql_or :: "sql_bool \<Rightarrow> sql_bool \<Rightarrow> sql_bool" where
  "sql_or a b = (if a = Some True \<or> b = Some True then Some True
                 else if a = None \<or> b = None then None else Some False)"

definition sql_and :: "sql_bool \<Rightarrow> sql_bool \<Rightarrow> sql_bool" where
  "sql_and a b = (if a = Some False \<or> b = Some False then Some False
                  else if a = None \<or> b = None then None else Some True)"

definition passes :: "sql_bool \<Rightarrow> bool" where
  "passes b = (b = Some True)"

section \<open>Row-level security policies\<close>

subsection \<open>friends\<close>

text \<open>
  \<^verbatim>\<open>"Users can view their own friend requests" FOR SELECT
     USING (auth.uid() = sender_id OR auth.uid() = receiver_id)\<close>
  \<^verbatim>\<open>"Users can send friend requests" FOR INSERT WITH CHECK (auth.uid() = sender_id)\<close>
  \<^verbatim>\<open>"Users can accept/reject friend requests" FOR UPDATE USING (auth.uid() = receiver_id)\<close>
  \<^verbatim>\<open>"Users can remove friends" FOR DELETE USING (auth.uid() IN (sender_id, receiver_id))\<close>
\<close>

definition friends_select_policy :: "uuid option \<Rightarrow> friends_row \<Rightarrow> sql_bool" where
  "friends_select_policy uid f =
     sql_or (sql_eq uid (Some (sender_id f))) (sql_eq uid (Some (receiver_id f)))"

definition friends_insert_policy :: "uuid option \<Rightarrow> friends_row \<Rightarrow> sql_bool" where
  "friends_insert_policy uid f = sql_eq uid (Some (sender_id f))"

definition friends_update_policy :: "uuid option \<Rightarrow> friends_row \<Rightarrow> sql_bool" where
  "friends_update_policy uid f = sql_eq uid (Some (receiver_id f))"

definition friends_delete_policy :: "uuid option \<Rightarrow> friends_row \<Rightarrow> sql_bool" where
  "friends_delete_policy uid f =
     sql_or (sql_eq uid (Some (sender_id f))) (sql_eq uid (Some (receiver_id f)))"

subsection \<open>posts\<close>

text \<open>
  The second migration replaces "Posts are viewable by everyone" by
  \<^verbatim>\<open>
  CREATE POLICY "Posts are viewable based on visibility" ON posts FOR SELECT
    USING (
      visibility = 'public' OR
      auth.uid() = author_id OR
      ( visibility = 'friends' AND
        EXISTS ( SELECT 1 FROM friends
                 WHERE ( (sender_id = auth.uid() AND receiver_id = author_id) OR
                         (receiver_id = auth.uid() AND sender_id = author_id) )
                 AND status = 'accepted' ) ) );
  \<close>
  The subquery reads \<open>friends\<close> as the caller, so it sees the rows that the caller's
  SELECT policy on \<open>friends\<close> lets through. \<open>EXISTS\<close> is never NULL.
\<close>

definition friendship_where :: "uuid option \<Rightarrow> posts_row \<Rightarrow> friends_row \<Rightarrow> sql_bool" where
  "friendship_where uid p f =
     sql_and
       (sql_or
          (sql_and (sql_eq (Some (sender_id f)) uid)
                   (sql_eq (Some (receiver_id f)) (Some (author_id p))))
          (sql_and (sql_eq (Some (receiver_id f)) uid)
                   (sql_eq (Some (sender_id f)) (Some (author_id p)))))
       (sql_eq (Some (status f)) (Some Accepted))"

definition friends_visible :: "uuid option \<Rightarrow> database \<Rightarrow> friends_row list" where
  "friends_visible uid db = filter (\<lambda>f. passes (friends_select_policy uid f)) (friends db)"

definition sql_exists :: "'a list \<Rightarrow> sql_bool" where
  "sql_exists rows = Some (rows \<noteq> [])"

definition posts_select_policy :: "uuid option \<Rightarrow> database \<Rightarrow> posts_row \<Rightarrow> sql_bool" where
  "posts_select_policy uid db p =
     sql_or
       (sql_or (sql_eq (visibility p) (Some ''public''))
               (sql_eq uid (Some (author_id p))))
       (sql_and (sql_eq (visibility p) (Some ''friends''))
                (sql_exists (filter (\<lambda>f. passes (friendship_where uid p f))
                                    (friends_visible uid db))))"

definition posts_insert_policy :: "uuid option \<Rightarrow> posts_row \<Rightarrow> sql_bool" where
  "posts_insert_policy uid p = sql_eq uid (Some (author_id p))"

definition posts_update_policy :: "uuid option \<Rightarrow> posts_row \<Rightarrow> sql_bool" where
  "posts_update_policy uid p = sql_eq uid (Some (author_id p))"

definition posts_delete_policy :: "uuid option \<Rightarrow> posts_row \<Rightarrow> sql_bool" where
  "posts_delete_policy uid p = sql_eq uid (Some (author_id p))"

subsection \<open>likes, comments, shared\_posts\<close>

text \<open>
  All three tables are readable by everyone (\<^verbatim>\<open>FOR SELECT USING (true)\<close>). A row is
  inserted \<^verbatim>\<open>WITH CHECK (auth.uid() = user_id)\<close>, and deleted (for comments also
  updated) \<^verbatim>\<open>USING (auth.uid() = user_id)\<close>.
\<close>

definition likes_insert_policy :: "uuid option \<Rightarrow> likes_row \<Rightarrow> sql_bool" where
  "likes_insert_policy uid l = sql_eq uid (Some (l_user_id l))"

definition likes_delete_policy :: "uuid option \<Rightarrow> likes_row \<Rightarrow> sql_bool" where
  "likes_delete_policy uid l = sql_eq uid (Some (l_user_id l))"

definition comments_update_policy :: "uuid option \<Rightarrow> comments_row \<Rightarrow> sql_bool" where
  "comments_update_policy uid c = sql_eq uid (Some (c_user_id c))"

definition comments_delete_policy :: "uuid option \<Rightarrow> comments_row \<Rightarrow> sql_bool" where
  "comments_delete_policy uid c = sql_eq uid (Some (c_user_id c))"

definition shared_posts_insert_policy :: "uuid option \<Rightarrow> shared_posts_row \<Rightarrow> sql_bool" where
  "shared_posts_insert_policy uid s = sql_eq uid (Some (s_user_id s))"

definition shared_posts_delete_policy :: "uuid option \<Rightarrow> shared_posts_row \<Rightarrow> sql_bool" where
  "shared_posts_delete_policy uid s = sql_eq uid (Some (s_user_id s))"

section \<open>Statements the client issues\<close>

text \<open>
  Each statement runs as the caller \<open>uid\<close> (the value of \<open>auth.uid()\<close>). A mutation
  answers with an error or with nothing, and leaves the tables as they were when it
  errs. An INSERT is checked against the table's \<open>WITH CHECK\<close> policy, then against the
  primary key and the \<open>UNIQUE\<close> constraint, then against the foreign keys. An UPDATE or
  DELETE touches the rows that match its \<open>WHERE\<close> clause and pass the SELECT policy and
  the \<open>USING\<close> policy of the command; the rows that do not pass are skipped without an
  error. An UPDATE policy without \<open>WITH CHECK\<close> applies its \<open>USING\<close> expression to the
  new row as well. Fresh identifiers (\<open>gen_random_uuid()\<close>) and the clock (\<open>now()\<close>)
  are inputs.
\<close>

datatype db_error = RlsViolation | UniqueViolation | ForeignKeyViolation | PGRST116 | Unreachable

definition has_profile :: "database \<Rightarrow> uuid \<Rightarrow> bool" where
  "has_profile db u = (\<exists>pr \<in> set (profiles db). pr_id pr = u)"

definition has_post :: "database \<Rightarrow> uuid \<Rightarrow> bool" where
  "has_post db pid = (\<exists>p \<in> set (posts db). p_id p = pid)"

subsection \<open>friends\<close>

text \<open>\<^verbatim>\<open>supabase.from('friends').insert([{ sender_id, receiver_id }])\<close>;
  the table has \<^verbatim>\<open>UNIQUE(sender_id, receiver_id)\<close> and \<open>status\<close> defaults to
  \<open>'pending'\<close>.\<close>

definition friends_insert ::
  "uuid option \<Rightarrow> uuid \<Rightarrow> timestamptz \<Rightarrow> uuid \<Rightarrow> uuid \<Rightarrow> database \<Rightarrow> db_error option \<times> database" where
  "friends_insert uid new_id now s r db =
     (let row = \<lparr>f_id = new_id, sender_id = s, receiver_id = r, status = Pending,
                 f_created_at = now\<rparr> in
      if \<not> passes (friends_insert_policy uid row) then (Some RlsViolation, db)
      else if \<exists>f \<in> set (friends db). f_id f = new_id then (Some UniqueViolation, db)
      else if \<exists>f \<in> set (friends db). sender_id f = s \<and> receiver_id f = r
        then (Some UniqueViolation, db)
      else if \<not> (has_profile db s \<and> has_profile db r) then (Some ForeignKeyViolation, db)
      else (None, db\<lparr>friends := friends db @ [row]\<rparr>))"

text \<open>\<^verbatim>\<open>supabase.from('friends').update({ status: 'accepted' }).eq('id', rid)\<close>
  (\<open>.match({ id: rid })\<close> is the same filter).\<close>

definition friends_update_target :: "uuid option \<Rightarrow> uuid \<Rightarrow> friends_row \<Rightarrow> bool" where
  "friends_update_target uid rid f \<longleftrightarrow>
     f_id f = rid \<and> passes (friends_select_policy uid f) \<and> passes (friends_update_policy uid f)"

definition friends_set_status ::
  "uuid option \<Rightarrow> uuid \<Rightarrow> friend_status \<Rightarrow> database \<Rightarrow> db_error option \<times> database" where
  "friends_set_status uid rid s db =
     (if \<exists>f \<in> set (friends db). friends_update_target uid rid f \<and>
            \<not> passes (friends_update_policy uid (f\<lparr>status := s\<rparr>))
      then (Some RlsViolation, db)
      else (None, db\<lparr>friends :=
              map (\<lambda>f. if friends_update_target uid rid f then f\<lparr>status := s\<rparr> else f)
                  (friends db)\<rparr>))"

text \<open>\<^verbatim>\<open>supabase.from('friends').delete().eq('id', rid)\<close>\<close>

definition friends_delete_target :: "uuid option \<Rightarrow> uuid \<Rightarrow> friends_row \<Rightarrow> bool" where
  "friends_delete_target uid rid f \<longleftrightarrow>
     f_id f = rid \<and> passes (friends_select_policy uid f) \<and> passes (friends_delete_policy uid f)"

definition friends_delete :: "uuid option \<Rightarrow> uuid \<Rightarrow> database \<Rightarrow> db_error option \<times> database" where
  "friends_delete uid rid db =
     (None, db\<lparr>friends := filter (\<lambda>f. \<not> friends_delete_target uid rid f) (friends db)\<rparr>)"

text \<open>The two filters \<^verbatim>\<open>.or(`sender_id.eq.${user},receiver_id.eq.${user}`)\<close> and
  \<^verbatim>\<open>.or(`sender_id.eq.${id},receiver_id.eq.${id}`)\<close> are conjoined; \<open>.single()\<close>
  answers with the error \<open>PGRST116\<close> unless exactly one row comes back.\<close>

definition single :: "'a list \<Rightarrow> db_error + 'a" where
  "single rows = (case rows of [r] \<Rightarrow> Inr r | _ \<Rightarrow> Inl PGRST116)"

definition friends_between :: "uuid option \<Rightarrow> uuid \<Rightarrow> uuid \<Rightarrow> database \<Rightarrow> friends_row list" where
  "friends_between uid user ident db =
     filter (\<lambda>f. (sender_id f = user \<or> receiver_id f = user) \<and>
                 (sender_id f = ident \<or> receiver_id f = ident))
            (friends_visible uid db)"

text \<open>\<^verbatim>\<open>.eq('receiver_id', user).eq('status', 'pending')\<close>\<close>

definition friends_pending_for :: "uuid option \<Rightarrow> uuid \<Rightarrow> database \<Rightarrow> friends_row list" where
  "friends_pending_for uid user db =
     filter (\<lambda>f. receiver_id f = user \<and> status f = Pending) (friends_visible uid db)"

text \<open>\<^verbatim>\<open>.eq('status', 'accepted').eq('sender_id', user)\<close> and
  \<^verbatim>\<open>.eq('status', 'accepted').eq('receiver_id', user)\<close>\<close>

definition friends_accepted_sent :: "uuid option \<Rightarrow> uuid \<Rightarrow> database \<Rightarrow> friends_row list" where
  "friends_accepted_sent uid user db =
     filter (\<lambda>f. status f = Accepted \<and> sender_id f = user) (friends_visible uid db)"

definition friends_accepted_received :: "uuid option \<Rightarrow> uuid \<Rightarrow> database \<Rightarrow> friends_row list" where
  "friends_accepted_received uid user db =
     filter (\<lambda>f. status f = Accepted \<and> receiver_id f = user) (friends_visible uid db)"

subsection \<open>likes and shared\_posts\<close>

text \<open>\<^verbatim>\<open>supabase.from('likes').insert([{ post_id, user_id }])\<close>; the table has
  \<^verbatim>\<open>UNIQUE(post_id, user_id)\<close>.\<close>

definition likes_insert ::
  "uuid option \<Rightarrow> uuid \<Rightarrow> timestamptz \<Rightarrow> uuid \<Rightarrow> uuid \<Rightarrow> database \<Rightarrow> db_error option \<times> database" where
  "likes_insert uid new_id now pid u db =
     (let row = \<lparr>l_id = new_id, l_post_id = pid, l_user_id = u, l_created_at = now\<rparr> in
      if \<not> passes (likes_insert_policy uid row) then (Some RlsViolation, db)
      else if \<exists>l \<in> set (likes db). l_id l = new_id then (Some UniqueViolation, db)
      else if \<exists>l \<in> set (likes db). l_post_id l = pid \<and> l_user_id l = u
        then (Some UniqueViolation, db)
      else if \<not> (has_post db pid \<and> has_profile db u) then (Some ForeignKeyViolation, db)
      else (None, db\<lparr>likes := likes db @ [row]\<rparr>))"

text \<open>\<^verbatim>\<open>supabase.from('likes').delete().match({ post_id, user_id })\<close>\<close>

definition likes_delete_target :: "uuid option \<Rightarrow> uuid \<Rightarrow> uuid \<Rightarrow> likes_row \<Rightarrow> bool" where
  "likes_delete_target uid pid u l \<longleftrightarrow>
     l_post_id l = pid \<and> l_user_id l = u \<and> passes (likes_delete_policy uid l)"

definition likes_delete ::
  "uuid option \<Rightarrow> uuid \<Rightarrow> uuid \<Rightarrow> database \<Rightarrow> db_error option \<times> database" where
  "likes_delete uid pid u db =
     (None, db\<lparr>likes := filter (\<lambda>l. \<not> likes_delete_target uid pid u l) (likes db)\<rparr>)"

definition shared_posts_insert ::
  "uuid option \<Rightarrow> uuid \<Rightarrow> timestamptz \<Rightarrow> uuid \<Rightarrow> uuid \<Rightarrow> database \<Rightarrow> db_error option \<times> database" where
  "shared_posts_insert uid new_id now pid u db =
     (let row = \<lparr>s_id = new_id, s_post_id = pid, s_user_id = u, s_created_at = now\<rparr> in
      if \<not> passes (shared_posts_insert_policy uid row) then (Some RlsViolation, db)
      else if \<exists>s \<in> set (shared_posts db). s_id s = new_id then (Some UniqueViolation, db)
      else if \<exists>s \<in> set (shared_posts db). s_post_id s = pid \<and> s_user_id s = u
        then (Some UniqueViolation, db)
      else if \<not> (has_post db pid \<and> has_profile db u) then (Some ForeignKeyViolation, db)
      else (None, db\<lparr>shared_posts := shared_posts db @ [row]\<rparr>))"

definition shared_posts_delete_target ::
  "uuid option \<Rightarrow> uuid \<Rightarrow> uuid \<Rightarrow> shared_posts_row \<Rightarrow> bool" where
  "shared_posts_delete_target uid pid u s \<longleftrightarrow>
     s_post_id s = pid \<and> s_user_id s = u \<and> passes (shared_posts_delete_policy uid s)"

definition shared_posts_delete ::
  "uuid option \<Rightarrow> uuid \<Rightarrow> uuid \<Rightarrow> database \<Rightarrow> db_error option \<times> database" where
  "shared_posts_delete uid pid u db =
     (None, db\<lparr>shared_posts :=
        filter (\<lambda>s. \<not> shared_posts_delete_target uid pid u s) (shared_posts db)\<rparr>)"

subsection \<open>posts and comments\<close>

text \<open>\<^verbatim>\<open>supabase.from('posts').update({ content }).match({ id, author_id })\<close>\<close>

definition posts_write_target ::
  "(uuid option \<Rightarrow> posts_row \<Rightarrow> sql_bool) \<Rightarrow> uuid option \<Rightarrow> database \<Rightarrow> uuid \<Rightarrow> uuid \<Rightarrow> posts_row \<Rightarrow> bool" where
  "posts_write_target policy uid db pid author p \<longleftrightarrow>
     p_id p = pid \<and> author_id p = author \<and>
     passes (posts_select_policy uid db p) \<and> passes (policy uid p)"

definition posts_update_content ::
  "uuid option \<Rightarrow> uuid \<Rightarrow> uuid \<Rightarrow> string \<Rightarrow> database \<Rightarrow> db_error option \<times> database" where
  "posts_update_content uid pid author new db =
     (if \<exists>p \<in> set (posts db). posts_write_target posts_update_policy uid db pid author p \<and>
            \<not> passes (posts_update_policy uid (p\<lparr>p_content := new\<rparr>))
      then (Some RlsViolation, db)
      else (None, db\<lparr>posts :=
              map (\<lambda>p. if posts_write_target posts_update_policy uid db pid author p
                        then p\<lparr>p_content := new\<rparr> else p)
                  (posts db)\<rparr>))"

text \<open>\<^verbatim>\<open>supabase.from('posts').delete().match({ id, author_id })\<close>; the likes, comments
  and shares of a deleted post go with it (\<open>ON DELETE CASCADE\<close>).\<close>

definition posts_delete ::
  "uuid option \<Rightarrow> uuid \<Rightarrow> uuid \<Rightarrow> database \<Rightarrow> db_error option \<times> database" where
  "posts_delete uid pid author db =
     (let gone = map p_id (filter (posts_write_target posts_delete_policy uid db pid author)
                                  (posts db)) in
      (None, db\<lparr>posts := filter (\<lambda>p. \<not> posts_write_target posts_delete_policy uid db pid author p)
                                 (posts db),
                likes := filter (\<lambda>l. \<not> (l_post_id l \<in> set gone)) (likes db),
                comments := filter (\<lambda>c. \<not> (c_post_id c \<in> set gone)) (comments db),
                shared_posts := filter (\<lambda>s. \<not> (s_post_id s \<in> set gone)) (shared_posts db)\<rparr>))"

text \<open>\<^verbatim>\<open>supabase.from('comments').delete().match({ id, user_id })\<close>, and the UPDATE of a
  comment's text that the policy "Users can update own comments" governs (no component
  issues it; it is the statement \<open>UPDATE comments SET content = .. WHERE id = ..\<close>).\<close>

definition comments_delete_target :: "uuid option \<Rightarrow> uuid \<Rightarrow> uuid \<Rightarrow> comments_row \<Rightarrow> bool" where
  "comments_delete_target uid cid u c \<longleftrightarrow>
     c_id c = cid \<and> c_user_id c = u \<and> passes (comments_delete_policy uid c)"

definition comments_delete ::
  "uuid option \<Rightarrow> uuid \<Rightarrow> uuid \<Rightarrow> database \<Rightarrow> db_error option \<times> database" where
  "comments_delete uid cid u db =
     (None, db\<lparr>comments := filter (\<lambda>c. \<not> comments_delete_target uid cid u c) (comments db)\<rparr>)"

definition comments_update_target :: "uuid option \<Rightarrow> uuid \<Rightarrow> comments_row \<Rightarrow> bool" where
  "comments_update_target uid cid c \<longleftrightarrow> c_id c = cid \<and> passes (comments_update_policy uid c)"

definition comments_update_content ::
  "uuid option \<Rightarrow> uuid \<Rightarrow> string \<Rightarrow> database \<Rightarrow> db_error option \<times> database" where
  "comments_update_content uid cid new db =
     (if \<exists>c \<in> set (comments db). comments_update_target uid cid c \<and>
            \<not> passes (comments_update_policy uid (c\<lparr>c_content := new\<rparr>))
      then (Some RlsViolation, db)
      else (None, db\<lparr>comments :=
              map (\<lambda>c. if comments_update_target uid cid c then c\<lparr>c_content := new\<rparr> else c)
                  (comments db)\<rparr>))"

subsection \<open>Reading posts\<close>

text \<open>
  Every read of \<open>posts\<close> sees the rows that pass the SELECT policy for the caller, also
  when \<open>posts\<close> is embedded in a read of \<open>shared_posts\<close>: the embedded post of a share
  is \<open>null\<close> when the caller may not read it. \<open>likes\<close>, \<open>comments\<close>, \<open>shared_posts\<close>
  and \<open>profiles\<close> are readable by everyone. \<open>.order('created_at', { ascending: false })\<close>
  sorts by descending time.
\<close>

definition posts_visible :: "uuid option \<Rightarrow> database \<Rightarrow> posts_row list" where
  "posts_visible uid db = filter (\<lambda>p. passes (posts_select_policy uid db p)) (posts db)"

text \<open>A stable sort by descending key. The store sorts by \<open>created_at\<close> in its own
  resolution; among rows of equal \<open>created_at\<close>, whose order SQL leaves open, the table's
  order is kept.\<close>

definition order_desc :: "('a \<Rightarrow> int) \<Rightarrow> 'a list \<Rightarrow> 'a list" where
  "order_desc key rows = sort_key (\<lambda>r. - key r) rows"

type_synonym profile_embed = "(string \<times> string option) option"

definition embed_profile :: "database \<Rightarrow> uuid \<Rightarrow> profile_embed" where
  "embed_profile db u =
     map_option (\<lambda>pr. (username pr, avatar_url pr)) (find (\<lambda>pr. pr_id pr = u) (profiles db))"

definition embed_likes :: "database \<Rightarrow> uuid \<Rightarrow> uuid list" where
  "embed_likes db pid = map l_user_id (filter (\<lambda>l. l_post_id l = pid) (likes db))"

definition embed_comments :: "database \<Rightarrow> uuid \<Rightarrow> uuid list" where
  "embed_comments db pid = map c_id (filter (\<lambda>c. c_post_id c = pid) (comments db))"

definition embed_shared_posts :: "database \<Rightarrow> uuid \<Rightarrow> uuid list" where
  "embed_shared_posts db pid = map s_user_id (filter (\<lambda>s. s_post_id s = pid) (shared_posts db))"

text \<open>The \<open>Post\<close> of \<open>Feed.tsx\<close>: the row (\<open>*\<close>), the author's profile, and the user ids
  of its likes, the ids of its comments, the user ids of its shares; \<open>shared_by\<close> is
  absent on a post read from \<open>posts\<close>.\<close>

record post_view =
  pv_row :: posts_row
  pv_profiles :: profile_embed
  pv_likes :: "uuid list"
  pv_comments :: "uuid list"
  pv_shared_posts :: "uuid list"
  shared_by :: "profile_embed option"

definition view_post :: "database \<Rightarrow> posts_row \<Rightarrow> post_view" where
  "view_post db p =
     \<lparr>pv_row = p, pv_profiles = embed_profile db (author_id p),
      pv_likes = embed_likes db (p_id p), pv_comments = embed_comments db (p_id p),
      pv_shared_posts = embed_shared_posts db (p_id p), shared_by = None\<rparr>"

text \<open>\<^verbatim>\<open>from('posts').select(`*, profiles:author_id (..), likes (user_id), comments (id),
  shared_posts (user_id)`).order('created_at', { ascending: false })\<close>\<close>

definition posts_feed :: "uuid option \<Rightarrow> database \<Rightarrow> post_view list" where
  "posts_feed uid db = map (view_post db) (order_desc p_created_at (posts_visible uid db))"

text \<open>\<^verbatim>\<open>from('shared_posts').select(`post_id, profiles:user_id (..), posts:post_id (*, ..)`)
  .order('created_at', { ascending: false })\<close>\<close>

record share_view =
  sv_post_id :: uuid
  sv_profiles :: profile_embed
  sv_posts :: "post_view option"

definition view_share :: "uuid option \<Rightarrow> database \<Rightarrow> shared_posts_row \<Rightarrow> share_view" where
  "view_share uid db s =
     \<lparr>sv_post_id = s_post_id s, sv_profiles = embed_profile db (s_user_id s),
      sv_posts = map_option (view_post db)
                   (find (\<lambda>p. p_id p = s_post_id s) (posts_visible uid db))\<rparr>"

definition shared_feed :: "uuid option \<Rightarrow> database \<Rightarrow> share_view list" where
  "shared_feed uid db = map (view_share uid db) (order_desc s_created_at (shared_posts db))"

text \<open>The \<open>Post\<close> of the post page:
  \<^verbatim>\<open>from('posts').select(`*, profiles:author_id (..), likes (user_id)`).eq('id', id).single()\<close>\<close>

record post_detail =
  pd_row :: posts_row
  pd_profiles :: profile_embed
  pd_likes :: "uuid list"

definition detail_post :: "database \<Rightarrow> posts_row \<Rightarrow> post_detail" where
  "detail_post db p =
     \<lparr>pd_row = p, pd_profiles = embed_profile db (author_id p),
      pd_likes = embed_likes db (p_id p)\<rparr>"

definition posts_by_id :: "uuid option \<Rightarrow> uuid \<Rightarrow> database \<Rightarrow> db_error + post_detail" where
  "posts_by_id uid ident db =
     single (map (detail_post db) (filter (\<lambda>p. p_id p = ident) (posts_visible uid db)))"

text \<open>The \<open>Post\<close> of the profile page:
  \<^verbatim>\<open>from('posts').select(`*, likes (user_id), comments (id), shared_posts (user_id)`)
  .eq('author_id', id).order('created_at', { ascending: false })\<close>\<close>

record profile_post =
  pp_row :: posts_row
  pp_likes :: "uuid list"
  pp_comments :: "uuid list"
  pp_shared_posts :: "uuid list"

definition profile_post_of :: "database \<Rightarrow> posts_row \<Rightarrow> profile_post" where
  "profile_post_of db p =
     \<lparr>pp_row = p, pp_likes = embed_likes db (p_id p), pp_comments = embed_comments db (p_id p),
      pp_shared_posts = embed_shared_posts db (p_id p)\<rparr>"

definition posts_by_author :: "uuid option \<Rightarrow> uuid \<Rightarrow> database \<Rightarrow> profile_post list" where
  "posts_by_author uid ident db =
     map (profile_post_of db)
         (order_desc p_created_at (filter (\<lambda>p. author_id p = ident) (posts_visible uid db)))"

text \<open>\<^verbatim>\<open>from('comments').select(`*, profiles:user_id (..)`).eq('post_id', id)
  .order('created_at', { ascending: true })\<close>\<close>

record comment_view =
  cv_row :: comments_row
  cv_profiles :: profile_embed

definition comments_of_post :: "uuid \<Rightarrow> database \<Rightarrow> comment_view list" where
  "comments_of_post ident db =
     map (\<lambda>c. \<lparr>cv_row = c, cv_profiles = embed_profile db (c_user_id c)\<rparr>)
         (sort_key c_created_at (filter (\<lambda>c. c_post_id c = ident) (comments db)))"

subsection \<open>The store\<close>

text \<open>
  The store is reachable or not. A request to an unreachable store answers with an error
  and changes nothing.
\<close>

record store =
  online :: bool
  tables :: database

definition mutate ::
  "store \<Rightarrow> (database \<Rightarrow> db_error option \<times> database) \<Rightarrow> db_error option \<times> store" where
  "mutate st stmt =
     (if online st
      then (case stmt (tables st) of (e, db') \<Rightarrow> (e, st\<lparr>tables := db'\<rparr>))
      else (Some Unreachable, st))"

definition query :: "store \<Rightarrow> (database \<Rightarrow> db_error + 'a) \<Rightarrow> db_error + 'a" where
  "query st q = (if online st then q (tables st) else Inl Unreachable)"

section \<open>The components\<close>

text \<open>
  A component is its React state; a handler takes the state and the store and returns
  both, after the fetch it starts at its end has answered: handlers run one after the
  other. The session's user is \<open>auth.uid()\<close> of every request the handler sends. A
  handler's \<open>catch\<close> stores the error it caught together with its own fallback text
  (the message shown is the error's own when it is an \<open>Error\<close>, the fallback otherwise).
\<close>

type_synonym ui_error = "db_error \<times> string"

subsection \<open>FriendRequests\<close>

text \<open>The component is rendered for a signed-in user only (\<open>{user && <FriendRequests />}\<close>).\<close>

record friend_request =
  fr_row :: friends_row
  fr_profiles :: profile_embed

record requests_state =
  requests :: "friend_request list"
  rq_error :: "ui_error option"

definition fetchFriendRequests :: "uuid \<Rightarrow> requests_state \<Rightarrow> store \<Rightarrow> requests_state" where
  "fetchFriendRequests user c st =
     (case query st (\<lambda>db. Inr (map (\<lambda>f. \<lparr>fr_row = f, fr_profiles = embed_profile db (sender_id f)\<rparr>)
                                  (friends_pending_for (Some user) user db))) of
        Inl e \<Rightarrow> c\<lparr>rq_error := Some (e, ''Failed to fetch friend requests'')\<rparr>
      | Inr data \<Rightarrow> c\<lparr>requests := data\<rparr>)"

definition handleRequest ::
  "uuid \<Rightarrow> uuid \<Rightarrow> bool \<Rightarrow> requests_state \<times> store \<Rightarrow> requests_state \<times> store" where
  "handleRequest user requestId accept w =
     (case w of (c, st) \<Rightarrow>
        (case (if accept then mutate st (friends_set_status (Some user) requestId Accepted)
               else mutate st (friends_delete (Some user) requestId)) of
           (Some e, st') \<Rightarrow> (c\<lparr>rq_error := Some (e, ''Failed to handle friend request'')\<rparr>, st')
         | (None, st') \<Rightarrow> (fetchFriendRequests user c st', st')))"

subsection \<open>Friends\<close>

record friend =
  fv_id :: uuid
  fv_status :: friend_status
  fv_profiles :: "profiles_row option"

record friends_state =
  friends_list :: "friend list"
  fs_loading :: bool
  fs_error :: "ui_error option"

definition friend_of :: "database \<Rightarrow> (friends_row \<Rightarrow> uuid) \<Rightarrow> friends_row \<Rightarrow> friend" where
  "friend_of db other f =
     \<lparr>fv_id = f_id f, fv_status = status f,
      fv_profiles = find (\<lambda>pr. pr_id pr = other f) (profiles db)\<rparr>"

definition fetchFriends :: "uuid \<Rightarrow> friends_state \<Rightarrow> store \<Rightarrow> friends_state" where
  "fetchFriends user c st =
     (case query st (\<lambda>db. Inr (map (friend_of db receiver_id)
                                  (friends_accepted_sent (Some user) user db))) of
        Inl e \<Rightarrow> c\<lparr>fs_error := Some (e, ''Failed to fetch friends''), fs_loading := False\<rparr>
      | Inr data \<Rightarrow>
          (case query st (\<lambda>db. Inr (map (friend_of db sender_id)
                                       (friends_accepted_received (Some user) user db))) of
             Inl e \<Rightarrow> c\<lparr>fs_error := Some (e, ''Failed to fetch friends''), fs_loading := False\<rparr>
           | Inr receiverFriends \<Rightarrow>
               c\<lparr>friends_list := data @ receiverFriends, fs_loading := False\<rparr>))"

definition removeFriend :: "uuid \<Rightarrow> uuid \<Rightarrow> friends_state \<times> store \<Rightarrow> friends_state \<times> store" where
  "removeFriend user friendId w =
     (case w of (c, st) \<Rightarrow>
        (case mutate st (friends_delete (Some user) friendId) of
           (Some e, st') \<Rightarrow> (c\<lparr>fs_error := Some (e, ''Failed to remove friend'')\<rparr>, st')
         | (None, st') \<Rightarrow> (fetchFriends user c st', st')))"

subsection \<open>Feed\<close>

record feed_state =
  feed_posts :: "post_view list"
  feed_loading :: bool
  feed_error :: "ui_error option"
  editingPost :: "uuid option"
  editContent :: string

text \<open>
  \<open>fetchPosts\<close> sends two reads and sets \<open>posts\<close> only when both answer with data: the
  shares whose post is not \<open>null\<close> become posts with \<open>shared_by\<close> set, and all are sorted
  by descending \<open>new Date(created_at).getTime()\<close>, which is \<open>created_at\<close> in whole
  milliseconds (\<open>Array.prototype.sort\<close> is stable, so posts of the same millisecond stay
  in the order of the concatenation). When a read answers with an error, the \<open>catch\<close>
  sets \<open>error\<close>; \<open>finally\<close> clears \<open>loading\<close>. \<open>fetchPosts_from\<close> is the handler after
  the two answers.
\<close>

definition getTime :: "timestamptz \<Rightarrow> int" where
  "getTime t = t div 1000"

definition fetchPosts_from ::
  "db_error + post_view list \<Rightarrow> db_error + share_view list \<Rightarrow> feed_state \<Rightarrow> feed_state" where
  "fetchPosts_from originalAnswer sharedAnswer c =
     (case originalAnswer of
        Inl originalError \<Rightarrow>
          c\<lparr>feed_error := Some (originalError, ''Failed to fetch posts''), feed_loading := False\<rparr>
      | Inr originalPosts \<Rightarrow>
          (case sharedAnswer of
             Inl sharedError \<Rightarrow>
               c\<lparr>feed_error := Some (sharedError, ''Failed to fetch posts''), feed_loading := False\<rparr>
           | Inr sharedPosts \<Rightarrow>
               (let transformedSharedPosts =
                      List.map_filter
                        (\<lambda>share. map_option (\<lambda>v. v\<lparr>shared_by := Some (sv_profiles share)\<rparr>)
                                             (sv_posts share))
                        sharedPosts;
                    allPosts = order_desc (\<lambda>v. getTime (p_created_at (pv_row v)))
                                 (originalPosts @ transformedSharedPosts)
                in c\<lparr>feed_posts := allPosts, feed_loading := False\<rparr>)))"

definition fetchPosts :: "uuid option \<Rightarrow> feed_state \<Rightarrow> store \<Rightarrow> feed_state" where
  "fetchPosts user c st =
     fetchPosts_from (query st (\<lambda>db. Inr (posts_feed user db)))
                     (query st (\<lambda>db. Inr (shared_feed user db))) c"

text \<open>\<open>toggleLike\<close> and \<open>sharePost\<close> decide on the component's \<open>posts\<close>, do not look at
  the answer of their statement, and fetch the posts again.\<close>

definition existingLike :: "post_view list \<Rightarrow> uuid \<Rightarrow> uuid \<Rightarrow> bool" where
  "existingLike ps postId u =
     (case find (\<lambda>p. p_id (pv_row p) = postId) ps of
        None \<Rightarrow> False
      | Some p \<Rightarrow> u \<in> set (pv_likes p))"

definition toggleLike ::
  "uuid option \<Rightarrow> uuid \<Rightarrow> uuid \<Rightarrow> timestamptz \<Rightarrow> feed_state \<times> store \<Rightarrow> feed_state \<times> store" where
  "toggleLike user postId new_id now w =
     (case w of (c, st) \<Rightarrow>
        (case user of None \<Rightarrow> (c, st) | Some u \<Rightarrow>
           (let st' = snd (if existingLike (feed_posts c) postId u
                           then mutate st (likes_delete (Some u) postId u)
                           else mutate st (likes_insert (Some u) new_id now postId u))
            in (fetchPosts user c st', st'))))"

definition alreadyShared :: "post_view list \<Rightarrow> uuid \<Rightarrow> uuid \<Rightarrow> bool" where
  "alreadyShared ps postId u =
     (case find (\<lambda>p. p_id (pv_row p) = postId) ps of
        None \<Rightarrow> False
      | Some p \<Rightarrow> u \<in> set (pv_shared_posts p))"

definition sharePost ::
  "uuid option \<Rightarrow> uuid \<Rightarrow> uuid \<Rightarrow> timestamptz \<Rightarrow> feed_state \<times> store \<Rightarrow> feed_state \<times> store" where
  "sharePost user postId new_id now w =
     (case w of (c, st) \<Rightarrow>
        (case user of None \<Rightarrow> (c, st) | Some u \<Rightarrow>
           (let st' = snd (if alreadyShared (feed_posts c) postId u
                           then mutate st (shared_posts_delete (Some u) postId u)
                           else mutate st (shared_posts_insert (Some u) new_id now postId u))
            in (fetchPosts user c st', st'))))"

definition updatePost :: "uuid option \<Rightarrow> uuid \<Rightarrow> feed_state \<times> store \<Rightarrow> feed_state \<times> store" where
  "updatePost user postId w =
     (case w of (c, st) \<Rightarrow>
        (case user of None \<Rightarrow> (c, st) | Some u \<Rightarrow>
           (case mutate st (posts_update_content (Some u) postId u (editContent c)) of
              (Some e, st') \<Rightarrow> (c\<lparr>feed_error := Some (e, ''Failed to update post'')\<rparr>, st')
            | (None, st') \<Rightarrow>
                (fetchPosts user (c\<lparr>editingPost := None, editContent := []\<rparr>) st', st'))))"

definition deletePost :: "uuid option \<Rightarrow> uuid \<Rightarrow> feed_state \<times> store \<Rightarrow> feed_state \<times> store" where
  "deletePost user postId w =
     (case w of (c, st) \<Rightarrow>
        (case user of None \<Rightarrow> (c, st) | Some u \<Rightarrow>
           (case mutate st (posts_delete (Some u) postId u) of
              (Some e, st') \<Rightarrow> (c\<lparr>feed_error := Some (e, ''Failed to delete post'')\<rparr>, st')
            | (None, st') \<Rightarrow> (fetchPosts user c st', st'))))"

subsection \<open>PostDetail\<close>

record detail_state =
  post :: "post_detail option"
  detail_comments :: "comment_view list"
  detail_loading :: bool
  detail_error :: "ui_error option"

definition fetchPost :: "uuid option \<Rightarrow> uuid \<Rightarrow> detail_state \<Rightarrow> store \<Rightarrow> detail_state" where
  "fetchPost user ident c st =
     (case query st (posts_by_id user ident) of
        Inl e \<Rightarrow> c\<lparr>detail_error := Some (e, ''Failed to fetch post'')\<rparr>
      | Inr data \<Rightarrow> c\<lparr>post := Some data\<rparr>)"

definition fetchComments :: "uuid \<Rightarrow> detail_state \<Rightarrow> store \<Rightarrow> detail_state" where
  "fetchComments ident c st =
     (case query st (\<lambda>db. Inr (comments_of_post ident db)) of
        Inl e \<Rightarrow> c\<lparr>detail_error := Some (e, ''Failed to fetch comments''), detail_loading := False\<rparr>
      | Inr data \<Rightarrow> c\<lparr>detail_comments := data, detail_loading := False\<rparr>)"

definition handleDeleteComment ::
  "uuid option \<Rightarrow> uuid \<Rightarrow> uuid \<Rightarrow> detail_state \<times> store \<Rightarrow> detail_state \<times> store" where
  "handleDeleteComment user ident commentId w =
     (case w of (c, st) \<Rightarrow>
        (case user of None \<Rightarrow> (c, st) | Some u \<Rightarrow>
           (case mutate st (comments_delete (Some u) commentId u) of
              (Some e, st') \<Rightarrow> (c\<lparr>detail_error := Some (e, ''Failed to delete comment'')\<rparr>, st')
            | (None, st') \<Rightarrow> (fetchComments ident c st', st'))))"

subsection \<open>Profile\<close>

record profile_state =
  friendStatus :: "friends_row option"
  profile_posts :: "profile_post list"
  profile_loading :: bool
  profile_error :: "ui_error option"

definition checkFriendStatus :: "uuid \<Rightarrow> uuid \<Rightarrow> profile_state \<Rightarrow> store \<Rightarrow> profile_state" where
  "checkFriendStatus user ident c st =
     (case query st (\<lambda>db. single (friends_between (Some user) user ident db)) of
        Inl e \<Rightarrow> if e \<noteq> PGRST116
                 then c\<lparr>profile_error := Some (e, ''Failed to check friend status'')\<rparr>
                 else c\<lparr>friendStatus := None\<rparr>
      | Inr data \<Rightarrow> c\<lparr>friendStatus := Some data\<rparr>)"

definition fetchUserPosts :: "uuid option \<Rightarrow> uuid \<Rightarrow> profile_state \<Rightarrow> store \<Rightarrow> profile_state" where
  "fetchUserPosts user ident c st =
     (case query st (\<lambda>db. Inr (posts_by_author user ident db)) of
        Inl e \<Rightarrow> c\<lparr>profile_error := Some (e, ''Failed to fetch posts''), profile_loading := False\<rparr>
      | Inr data \<Rightarrow> c\<lparr>profile_posts := data, profile_loading := False\<rparr>)"

text \<open>\<open>new_id\<close> and \<open>now\<close> are what \<open>gen_random_uuid()\<close> and \<open>now()\<close> give when this
  call inserts a row.\<close>

definition handleFriendRequest ::
  "uuid option \<Rightarrow> uuid option \<Rightarrow> uuid \<Rightarrow> timestamptz \<Rightarrow> profile_state \<times> store
     \<Rightarrow> profile_state \<times> store" where
  "handleFriendRequest user ident new_id now w =
     (case w of (c, st) \<Rightarrow>
        (case user of None \<Rightarrow> (c, st) | Some u \<Rightarrow>
        (case ident of None \<Rightarrow> (c, st) | Some i \<Rightarrow>
           (case (case friendStatus c of
                    None \<Rightarrow> mutate st (friends_insert (Some u) new_id now u i)
                  | Some fs \<Rightarrow>
                      if status fs = Pending \<and> receiver_id fs = u
                      then mutate st (friends_set_status (Some u) (f_id fs) Accepted)
                      else mutate st (friends_delete (Some u) (f_id fs))) of
              (Some e, st') \<Rightarrow>
                (c\<lparr>profile_error := Some (e, ''Failed to handle friend request'')\<rparr>, st')
            | (None, st') \<Rightarrow> (checkFriendStatus u i c st', st')))))"

section \<open>Invariants of the tables\<close>

text \<open>At most one row of \<open>friends\<close> for an unordered pair of users.\<close>

definition one_edge_per_pair :: "database \<Rightarrow> bool" where
  "one_edge_per_pair db = distinct (map (\<lambda>f. {sender_id f, receiver_id f}) (friends db))"

text \<open>What the schema's \<open>UNIQUE(sender_id, receiver_id)\<close> states.\<close>

definition one_edge_per_ordered_pair :: "database \<Rightarrow> bool" where
  "one_edge_per_ordered_pair db = distinct (map (\<lambda>f. (sender_id f, receiver_id f)) (friends db))"

text \<open>What \<open>UNIQUE(post_id, user_id)\<close> states of \<open>likes\<close> and of \<open>shared_posts\<close>.\<close>

definition one_like_per_pair :: "database \<Rightarrow> bool" where
  "one_like_per_pair db = distinct (map (\<lambda>l. (l_post_id l, l_user_id l)) (likes db))"

definition one_share_per_pair :: "database \<Rightarrow> bool" where
  "one_share_per_pair db = distinct (map (\<lambda>s. (s_post_id s, s_user_id s)) (shared_posts db))"

text \<open>The like set: the (post, user) pairs of the rows of \<open>likes\<close>.\<close>

definition like_set :: "database \<Rightarrow> (uuid \<times> uuid) set" where
  "like_set db = set (map (\<lambda>l. (l_post_id l, l_user_id l)) (likes db))"

section \<open>Example states\<close>

text \<open>The state a component starts in (its \<open>useState\<close> initial values).\<close>

definition feed_initial :: feed_state where
  "feed_initial = \<lparr>feed_posts = [], feed_loading = True, feed_error = None,
                   editingPost = None, editContent = []\<rparr>"

definition profile_initial :: profile_state where
  "profile_initial = \<lparr>friendStatus = None, profile_posts = [], profile_loading = True,
                      profile_error = None\<rparr>"

definition detail_initial :: detail_state where
  "detail_initial = \<lparr>post = None, detail_comments = [], detail_loading = True,
                     detail_error = None\<rparr>"

definition alice :: profiles_row where
  "alice = \<lparr>pr_id = ''alice'', username = ''alice'', full_name = None, avatar_url = None,
            bio = None, pr_created_at = 0\<rparr>"

definition bob :: profiles_row where
  "bob = \<lparr>pr_id = ''bob'', username = ''bob'', full_name = None, avatar_url = None,
          bio = None, pr_created_at = 0\<rparr>"

definition carol :: profiles_row where
  "carol = \<lparr>pr_id = ''carol'', username = ''carol'', full_name = None, avatar_url = None,
            bio = None, pr_created_at = 0\<rparr>"

definition bob_asks_alice :: friends_row where
  "bob_asks_alice = \<lparr>f_id = ''e1'', sender_id = ''bob'', receiver_id = ''alice'',
                     status = Pending, f_created_at = 1\<rparr>"

definition alice_asks_bob :: friends_row where
  "alice_asks_bob = \<lparr>f_id = ''e2'', sender_id = ''alice'', receiver_id = ''bob'',
                     status = Pending, f_created_at = 2\<rparr>"

text \<open>Alice has a public post \<open>p1\<close> and a friends-only post \<open>p2\<close>; bob is her friend,
  likes \<open>p1\<close>, commented on it and shared \<open>p2\<close>; carol is nobody's friend.\<close>

definition post1 :: posts_row where
  "post1 = \<lparr>p_id = ''p1'', author_id = ''alice'', p_content = ''hello'', image_url = None,
            p_created_at = 10, updated_at = 10, visibility = Some ''public''\<rparr>"

definition post2 :: posts_row where
  "post2 = \<lparr>p_id = ''p2'', author_id = ''alice'', p_content = ''for friends'', image_url = None,
            p_created_at = 20, updated_at = 20, visibility = Some ''friends''\<rparr>"

definition like1 :: likes_row where
  "like1 = \<lparr>l_id = ''l1'', l_post_id = ''p1'', l_user_id = ''bob'', l_created_at = 11\<rparr>"

definition comment1 :: comments_row where
  "comment1 = \<lparr>c_id = ''c1'', c_post_id = ''p1'', c_user_id = ''bob'', c_content = ''nice'',
               c_created_at = 12\<rparr>"

definition share1 :: shared_posts_row where
  "share1 = \<lparr>s_id = ''s1'', s_post_id = ''p2'', s_user_id = ''bob'', s_created_at = 21\<rparr>"

definition bob_and_alice :: friends_row where
  "bob_and_alice = \<lparr>f_id = ''e0'', sender_id = ''bob'', receiver_id = ''alice'',
                    status = Accepted, f_created_at = 5\<rparr>"

definition db_social :: database where
  "db_social = \<lparr>profiles = [alice, bob, carol], posts = [post1, post2], likes = [like1],
                comments = [comment1], friends = [bob_and_alice], shared_posts = [share1]\<rparr>"

definition alice_asks_alice :: friends_row where
  "alice_asks_alice = \<lparr>f_id = ''e3'', sender_id = ''alice'', receiver_id = ''alice'',
                       status = Pending, f_created_at = 3\<rparr>"

definition like_carol :: likes_row where
  "like_carol = \<lparr>l_id = ''l2'', l_post_id = ''p1'', l_user_id = ''carol'', l_created_at = 30\<rparr>"

definition like_alice :: likes_row where
  "like_alice = \<lparr>l_id = ''l2'', l_post_id = ''p1'', l_user_id = ''alice'', l_created_at = 30\<rparr>"

definition db_strangers :: database where
  "db_strangers = \<lparr>profiles = [alice, bob, carol], posts = [], likes = [], comments = [],
                   friends = [], shared_posts = []\<rparr>"

definition db_request :: database where
  "db_request = \<lparr>profiles = [alice, bob, carol], posts = [], likes = [], comments = [],
                 friends = [bob_asks_alice], shared_posts = []\<rparr>"

section \<open>Facts about the policies\<close>

lemma passes_sql_or: "passes (sql_or a b) \<longleftrightarrow> passes a \<or> passes b"
  by (auto simp: passes_def sql_or_def)

lemma passes_sql_and: "passes (sql_and a b) \<longleftrightarrow> passes a \<and> passes b"
  by (cases a; cases b) (auto simp: passes_def sql_and_def)

lemma passes_sql_eq: "passes (sql_eq a b) \<longleftrightarrow> (\<exists>x. a = Some x \<and> b = Some x)"
  by (auto simp: passes_def sql_eq_def split: option.splits)

lemma passes_sql_exists: "passes (sql_exists rows) \<longleftrightarrow> rows \<noteq> []"
  by (simp add: passes_def sql_exists_def)

lemmas passes_simps = passes_sql_or passes_sql_and passes_sql_eq passes_sql_exists

lemma passes_friendship_where:
  "passes (friendship_where uid p f) \<longleftrightarrow>
     status f = Accepted \<and>
     ((uid = Some (sender_id f) \<and> receiver_id f = author_id p) \<or>
      (uid = Some (receiver_id f) \<and> sender_id f = author_id p))"
  by (auto simp: friendship_where_def passes_simps)

lemma passes_friends_select_policy:
  "passes (friends_select_policy uid f) \<longleftrightarrow>
     uid = Some (sender_id f) \<or> uid = Some (receiver_id f)"
  by (auto simp: friends_select_policy_def passes_simps)

lemma passes_posts_select_policy:
  "passes (posts_select_policy uid db p) \<longleftrightarrow>
     visibility p = Some ''public'' \<or>
     uid = Some (author_id p) \<or>
     (visibility p = Some ''friends'' \<and>
      (\<exists>f \<in> set (friends db). status f = Accepted \<and>
         ((uid = Some (sender_id f) \<and> receiver_id f = author_id p) \<or>
          (uid = Some (receiver_id f) \<and> sender_id f = author_id p))))"
proof -
  have ex: "filter (\<lambda>f. passes (friendship_where uid p f)) (friends_visible uid db) \<noteq> [] \<longleftrightarrow>
      (\<exists>f \<in> set (friends db). status f = Accepted \<and>
         ((uid = Some (sender_id f) \<and> receiver_id f = author_id p) \<or>
          (uid = Some (receiver_id f) \<and> sender_id f = author_id p)))"
    unfolding filter_empty_conv friends_visible_def
    by (auto simp: passes_friendship_where passes_friends_select_policy)
  show ?thesis
    unfolding posts_select_policy_def passes_simps ex by auto
qed

text \<open>
  C1. A viewer (anonymous when \<open>uid = None\<close>) passes the SELECT policy of a post exactly
  when the post's visibility is \<open>'public'\<close>, or the viewer is the author, or the
  visibility is \<open>'friends'\<close> and some row of \<open>friends\<close> with status \<open>accepted\<close> connects
  the viewer and the author, in either direction.
\<close>

theorem posts_select_policy_iff:
  "passes (posts_select_policy uid db p) \<longleftrightarrow>
     visibility p = Some ''public'' \<or>
     uid = Some (author_id p) \<or>
     (visibility p = Some ''friends'' \<and>
      (\<exists>f \<in> set (friends db). status f = Accepted \<and>
         ((uid = Some (sender_id f) \<and> receiver_id f = author_id p) \<or>
          (uid = Some (receiver_id f) \<and> sender_id f = author_id p))))"
  by (rule passes_posts_select_policy)

section \<open>Relationship operations\<close>

lemma tables_mutate:
  "tables (snd (mutate st stmt)) = (if online st then snd (stmt (tables st)) else tables st)"
  by (simp add: mutate_def split: prod.splits)

lemma friends_update_new_row_passes:
  "friends_update_policy uid (f\<lparr>status := s\<rparr>) = friends_update_policy uid f"
  by (simp add: friends_update_policy_def)

text \<open>The new row of a status update keeps its recipient, so the policy's check on it
  never fails: the statement answers without an error.\<close>

lemma friends_set_status_eq:
  "friends_set_status uid rid s db =
     (None, db\<lparr>friends := map (\<lambda>f. if friends_update_target uid rid f then f\<lparr>status := s\<rparr> else f)
                               (friends db)\<rparr>)"
  by (auto simp: friends_set_status_def friends_update_new_row_passes friends_update_target_def)

lemma friends_update_target_iff:
  "friends_update_target uid rid f \<longleftrightarrow> f_id f = rid \<and> uid = Some (receiver_id f)"
  by (auto simp: friends_update_target_def friends_update_policy_def
      passes_friends_select_policy passes_simps)

lemma friends_delete_target_iff:
  "friends_delete_target uid rid f \<longleftrightarrow>
     f_id f = rid \<and> (uid = Some (sender_id f) \<or> uid = Some (receiver_id f))"
  by (auto simp: friends_delete_target_def friends_delete_policy_def
      passes_friends_select_policy passes_simps)

subsection \<open>Sending a request\<close>

text \<open>A second request in the same direction is rejected, whatever the status of the
  first, and the ordered pairs stay unique.\<close>

lemma friends_insert_same_direction:
  "\<exists>f \<in> set (friends db). sender_id f = s \<and> receiver_id f = r \<Longrightarrow>
   fst (friends_insert uid new_id now s r db) \<noteq> None \<and>
   snd (friends_insert uid new_id now s r db) = db"
  by (auto simp: friends_insert_def Let_def)

lemma one_edge_per_ordered_pair_insert:
  "one_edge_per_ordered_pair db \<Longrightarrow>
   one_edge_per_ordered_pair (snd (friends_insert uid new_id now s r db))"
  by (auto simp: friends_insert_def Let_def one_edge_per_ordered_pair_def)

text \<open>
  C2. Sending a request is to be rejected whenever a row for the pair exists, in either
  direction. The insert is checked against \<open>UNIQUE(sender_id, receiver_id)\<close> only: with
  bob's pending request to alice in the table, alice's request to bob is accepted, and
  the table then holds both rows.
\<close>

theorem friends_insert_reverse_direction:
  "friends_insert (Some ''alice'') ''e2'' 2 ''alice'' ''bob'' db_request
     = (None, db_request\<lparr>friends := [bob_asks_alice, alice_asks_bob]\<rparr>)"
  by (simp add: friends_insert_def Let_def db_request_def bob_asks_alice_def alice_asks_bob_def
      alice_def bob_def carol_def has_profile_def friends_insert_policy_def passes_def sql_eq_def)

subsection \<open>One row for a pair of users\<close>

text \<open>Accepting, rejecting, cancelling and removing keep the rows of distinct pairs.\<close>

lemma one_edge_per_pair_set_status:
  "one_edge_per_pair db \<Longrightarrow> one_edge_per_pair (snd (friends_set_status uid rid s db))"
  by (simp add: friends_set_status_eq one_edge_per_pair_def comp_def if_distrib cong: if_cong)

lemma one_edge_per_pair_delete:
  "one_edge_per_pair db \<Longrightarrow> one_edge_per_pair (snd (friends_delete uid rid db))"
  by (simp add: friends_delete_def one_edge_per_pair_def distinct_map_filter)

text \<open>So do the handlers that accept, reject and remove, and the friend button of the
  profile page whenever it has a row cached (it then accepts or deletes).\<close>

lemma snd_handleRequest:
  "snd (handleRequest user rid accept (c, st)) =
     snd (mutate st (if accept then friends_set_status (Some user) rid Accepted
                     else friends_delete (Some user) rid))"
  by (cases "mutate st (friends_set_status (Some user) rid Accepted)";
      cases "mutate st (friends_delete (Some user) rid)")
     (auto simp: handleRequest_def split: option.splits)

lemma snd_removeFriend:
  "snd (removeFriend user fid (c, st)) = snd (mutate st (friends_delete (Some user) fid))"
  by (cases "mutate st (friends_delete (Some user) fid)")
     (auto simp: removeFriend_def split: option.splits)

lemma snd_handleFriendRequest:
  "snd (handleFriendRequest (Some u) (Some i) n t (c, st)) =
     snd (mutate st (case friendStatus c of
                       None \<Rightarrow> friends_insert (Some u) n t u i
                     | Some fs \<Rightarrow> if status fs = Pending \<and> receiver_id fs = u
                                 then friends_set_status (Some u) (f_id fs) Accepted
                                 else friends_delete (Some u) (f_id fs)))"
proof (cases "friendStatus c")
  case None
  then show ?thesis
    by (cases "mutate st (friends_insert (Some u) n t u i)")
       (auto simp: handleFriendRequest_def split: option.splits)
next
  case (Some fs)
  then show ?thesis
    by (cases "mutate st (friends_set_status (Some u) (f_id fs) Accepted)";
        cases "mutate st (friends_delete (Some u) (f_id fs))")
       (auto simp: handleFriendRequest_def split: option.splits)
qed

lemma one_edge_per_pair_handleRequest:
  "one_edge_per_pair (tables st) \<Longrightarrow>
   one_edge_per_pair (tables (snd (handleRequest user rid accept (c, st))))"
  by (simp add: snd_handleRequest tables_mutate one_edge_per_pair_set_status
      one_edge_per_pair_delete)

lemma one_edge_per_pair_removeFriend:
  "one_edge_per_pair (tables st) \<Longrightarrow>
   one_edge_per_pair (tables (snd (removeFriend user fid (c, st))))"
  by (simp add: snd_removeFriend tables_mutate one_edge_per_pair_delete)

lemma one_edge_per_pair_handleFriendRequest:
  "friendStatus c = Some fs \<Longrightarrow> one_edge_per_pair (tables st) \<Longrightarrow>
   one_edge_per_pair (tables (snd (handleFriendRequest user ident n t (c, st))))"
  by (cases user; cases ident)
     (simp_all add: snd_handleFriendRequest tables_mutate one_edge_per_pair_set_status
        one_edge_per_pair_delete, simp_all add: handleFriendRequest_def)

text \<open>
  C3. Every relationship operation is to keep at most one row of \<open>friends\<close> for an
  unordered pair of users. Sending does not: alice and bob, with no row between them,
  each open the other's profile page, so both pages show "Add Friend" (\<open>friendStatus\<close>
  is \<open>null\<close>). Bob presses it, then alice presses it: her \<open>handleFriendRequest\<close>
  inserts a second row for the pair.
\<close>

theorem handleFriendRequest_two_edges:
  "one_edge_per_pair db_strangers \<and>
   (let st0 = \<lparr>online = True, tables = db_strangers\<rparr>;
        alice_page = checkFriendStatus ''alice'' ''bob'' profile_initial st0;
        bob_page = checkFriendStatus ''bob'' ''alice'' profile_initial st0;
        st1 = snd (handleFriendRequest (Some ''bob'') (Some ''alice'') ''e1'' 1 (bob_page, st0));
        st2 = snd (handleFriendRequest (Some ''alice'') (Some ''bob'') ''e2'' 2 (alice_page, st1))
    in friends (tables st1) = [bob_asks_alice] \<and>
       friends (tables st2) = [bob_asks_alice, alice_asks_bob] \<and>
       \<not> one_edge_per_pair (tables st2))"
  by (simp add: handleFriendRequest_def checkFriendStatus_def query_def single_def
      friends_between_def friends_visible_def profile_initial_def
      mutate_def friends_insert_def Let_def db_strangers_def
      bob_asks_alice_def alice_asks_bob_def alice_def bob_def carol_def has_profile_def
      friends_insert_policy_def passes_def sql_eq_def one_edge_per_pair_def doubleton_eq_iff)

subsection \<open>Accepting a request\<close>

lemma friends_set_status_unique_target:
  assumes "f \<in> set (friends db)" "distinct (map f_id (friends db))"
  shows "map (\<lambda>g. if friends_update_target uid (f_id f) g then g\<lparr>status := s\<rparr> else g) (friends db)
       = (if uid = Some (receiver_id f)
          then map (\<lambda>g. if g = f then f\<lparr>status := s\<rparr> else g) (friends db)
          else friends db)"
proof -
  have same: "g = f" if "g \<in> set (friends db)" "f_id g = f_id f" for g
    using that assms by (meson distinct_map inj_onD)
  show ?thesis
  proof (cases "uid = Some (receiver_id f)")
    case True
    then have "\<And>g. g \<in> set (friends db) \<Longrightarrow>
        (if friends_update_target uid (f_id f) g then g\<lparr>status := s\<rparr> else g)
        = (if g = f then f\<lparr>status := s\<rparr> else g)"
      using same by (auto simp: friends_update_target_iff)
    then show ?thesis using True by (simp cong: map_cong)
  next
    case False
    then have "\<And>g. g \<in> set (friends db) \<Longrightarrow>
        (if friends_update_target uid (f_id f) g then g\<lparr>status := s\<rparr> else g) = g"
      using same by (auto simp: friends_update_target_iff)
    then show ?thesis using False by (simp cong: map_cong)
  qed
qed

lemma fetchFriendRequests_online_error:
  "rq_error (fetchFriendRequests user c \<lparr>online = True, tables = db\<rparr>) = rq_error c"
  by (simp add: fetchFriendRequests_def query_def)

text \<open>
  C4. Let \<open>f\<close> be a pending row of \<open>friends\<close> (whose \<open>id\<close> is the primary key). The
  statement that sets its status to \<open>accepted\<close> changes the row exactly when the caller is
  the row's recipient. Sent by any other caller (a requester who is not the recipient, a
  third user, an anonymous caller) it matches no row: the table stays as it was and \<open>f\<close>
  stays pending, but the store answers without an error, as it does to the recipient.
  \<open>handleRequest\<close> with \<open>accept\<close> set changes the store in the same way for the
  signed-in user, and sets no error in either case.
\<close>

theorem accept_only_by_receiver:
  assumes "f \<in> set (friends db)" and "status f = Pending"
      and "distinct (map f_id (friends db))"
  shows "friends_set_status uid (f_id f) Accepted db =
           (None, if uid = Some (receiver_id f)
                  then db\<lparr>friends := map (\<lambda>g. if g = f then f\<lparr>status := Accepted\<rparr> else g) (friends db)\<rparr>
                  else db)
       \<and> snd (handleRequest user (f_id f) True (c, \<lparr>online = True, tables = db\<rparr>)) =
           \<lparr>online = True,
            tables = (if user = receiver_id f
                  then db\<lparr>friends := map (\<lambda>g. if g = f then f\<lparr>status := Accepted\<rparr> else g) (friends db)\<rparr>
                  else db)\<rparr>
       \<and> rq_error (fst (handleRequest user (f_id f) True (c, \<lparr>online = True, tables = db\<rparr>)))
           = rq_error c"
proof -
  have a: "friends_set_status uid (f_id f) Accepted db =
           (None, if uid = Some (receiver_id f)
                  then db\<lparr>friends := map (\<lambda>g. if g = f then f\<lparr>status := Accepted\<rparr> else g) (friends db)\<rparr>
                  else db)" for uid
    unfolding friends_set_status_eq friends_set_status_unique_target [OF assms(1,3)]
    by simp
  show ?thesis
    by (simp add: a handleRequest_def mutate_def fetchFriendRequests_online_error)
qed

theorem accept_only_by_receiver_witness:
  "friends_set_status (Some ''bob'') ''e1'' Accepted db_request = (None, db_request)
   \<and> friends_set_status (Some ''carol'') ''e1'' Accepted db_request = (None, db_request)
   \<and> friends_set_status None ''e1'' Accepted db_request = (None, db_request)
   \<and> friends_set_status (Some ''alice'') ''e1'' Accepted db_request =
        (None, db_request\<lparr>friends := [bob_asks_alice\<lparr>status := Accepted\<rparr>]\<rparr>)"
proof -
  have f: "bob_asks_alice \<in> set (friends db_request)" by (simp add: db_request_def)
  have p: "status bob_asks_alice = Pending" by (simp add: bob_asks_alice_def)
  have d: "distinct (map f_id (friends db_request))" by (simp add: db_request_def)
  have i: "f_id bob_asks_alice = ''e1''" "receiver_id bob_asks_alice = ''alice''"
    by (simp_all add: bob_asks_alice_def)
  note t = accept_only_by_receiver [OF f p d, THEN conjunct1, unfolded i]
  have fr: "friends db_request = [bob_asks_alice]" by (simp add: db_request_def)
  show ?thesis
    using t [of "Some ''bob''"] t [of "Some ''carol''"] t [of None] t [of "Some ''alice''"]
    by (simp add: fr)
qed

text \<open>
  The claim as stated has the requester's and a third party's attempt rejected. Bob, the
  requester, sends the update for his own pending request to alice: the store answers
  without an error and \<open>handleRequest\<close> sets none. And a request alice sends to herself
  is stored, and she, its requester, accepts it.
\<close>

theorem non_recipient_accept_reports_no_error:
  "friends_set_status (Some ''bob'') ''e1'' Accepted db_request = (None, db_request)
   \<and> rq_error (fst (handleRequest ''bob'' ''e1'' True
        (\<lparr>requests = [], rq_error = None\<rparr>, \<lparr>online = True, tables = db_request\<rparr>))) = None
   \<and> friends_insert (Some ''alice'') ''e3'' 3 ''alice'' ''alice'' db_strangers
        = (None, db_strangers\<lparr>friends := [alice_asks_alice]\<rparr>)
   \<and> friends_set_status (Some ''alice'') ''e3'' Accepted (db_strangers\<lparr>friends := [alice_asks_alice]\<rparr>)
        = (None, db_strangers\<lparr>friends := [alice_asks_alice\<lparr>status := Accepted\<rparr>]\<rparr>)"
proof -
  have a: "friends_set_status (Some ''bob'') ''e1'' Accepted db_request = (None, db_request)"
    by (simp add: friends_set_status_eq friends_update_target_iff db_request_def
        bob_asks_alice_def)
  have b: "rq_error (fst (handleRequest ''bob'' ''e1'' True
        (\<lparr>requests = [], rq_error = None\<rparr>, \<lparr>online = True, tables = db_request\<rparr>))) = None"
    by (simp add: handleRequest_def mutate_def a fetchFriendRequests_online_error)
  have c: "friends_insert (Some ''alice'') ''e3'' 3 ''alice'' ''alice'' db_strangers
        = (None, db_strangers\<lparr>friends := [alice_asks_alice]\<rparr>)"
    by (simp add: friends_insert_def Let_def db_strangers_def alice_asks_alice_def
        alice_def bob_def carol_def has_profile_def friends_insert_policy_def passes_def
        sql_eq_def)
  have d: "friends_set_status (Some ''alice'') ''e3'' Accepted
        (db_strangers\<lparr>friends := [alice_asks_alice]\<rparr>)
        = (None, db_strangers\<lparr>friends := [alice_asks_alice\<lparr>status := Accepted\<rparr>]\<rparr>)"
    by (simp add: friends_set_status_eq friends_update_target_iff alice_asks_alice_def)
  show ?thesis using a b c d by simp
qed

subsection \<open>What accepting leaves alone\<close>

lemma friends_set_status_online:
  "tables (snd (mutate st (friends_set_status (Some user) rid Accepted))) =
     (tables st)\<lparr>friends :=
        map (\<lambda>g. if online st \<and> f_id g = rid \<and> receiver_id g = user
                  then g\<lparr>status := Accepted\<rparr> else g) (friends (tables st))\<rparr>"
  by (auto simp: mutate_def friends_set_status_eq friends_update_target_iff)

lemma tables_handleRequest_accept:
  "tables (snd (handleRequest user rid True (cr, st))) =
     (tables st)\<lparr>friends :=
        map (\<lambda>g. if online st \<and> f_id g = rid \<and> receiver_id g = user
                  then g\<lparr>status := Accepted\<rparr> else g) (friends (tables st))\<rparr>"
proof (cases "mutate st (friends_set_status (Some user) rid Accepted)")
  case (Pair e st')
  with friends_set_status_online [of st user rid] show ?thesis
    by (cases e) (simp_all add: handleRequest_def)
qed

lemma tables_handleFriendRequest_accept:
  assumes "friendStatus c = Some fs" "status fs = Pending" "receiver_id fs = u"
  shows "tables (snd (handleFriendRequest (Some u) (Some i) new_id now (c, st))) =
     (tables st)\<lparr>friends :=
        map (\<lambda>g. if online st \<and> f_id g = f_id fs \<and> receiver_id g = u
                  then g\<lparr>status := Accepted\<rparr> else g) (friends (tables st))\<rparr>"
proof (cases "mutate st (friends_set_status (Some u) (f_id fs) Accepted)")
  case (Pair e st')
  with friends_set_status_online [of st u "f_id fs"] assms show ?thesis
    by (cases e) (simp_all add: handleFriendRequest_def)
qed

lemma map_status_update_frame:
  "map (\<lambda>g. (f_id g, sender_id g, receiver_id g, f_created_at g))
       (map (\<lambda>g. if P g then g\<lparr>status := s\<rparr> else g) fs)
   = map (\<lambda>g. (f_id g, sender_id g, receiver_id g, f_created_at g)) fs"
  by (induction fs) auto

text \<open>
  C10. Accepting, through \<open>handleRequest\<close> with \<open>accept\<close> set or through the accept
  branch of \<open>handleFriendRequest\<close> (the cached row is pending and the user is its
  recipient), rewrites the table \<open>friends\<close> row by row: a row is either kept or replaced
  by itself with \<open>status\<close> set to \<open>accepted\<close>. So \<open>id\<close>, \<open>sender_id\<close>, \<open>receiver_id\<close>
  and \<open>created_at\<close> of every row are as before, and no other table changes.
\<close>

theorem accept_updates_status_only:
  assumes "friendStatus c = Some fs" and "status fs = Pending" and "receiver_id fs = u"
  shows "tables (snd (handleRequest user rid True (cr, st))) =
           (tables st)\<lparr>friends :=
              map (\<lambda>g. if online st \<and> f_id g = rid \<and> receiver_id g = user
                        then g\<lparr>status := Accepted\<rparr> else g) (friends (tables st))\<rparr>
       \<and> tables (snd (handleFriendRequest (Some u) (Some i) new_id now (c, st))) =
           (tables st)\<lparr>friends :=
              map (\<lambda>g. if online st \<and> f_id g = f_id fs \<and> receiver_id g = u
                        then g\<lparr>status := Accepted\<rparr> else g) (friends (tables st))\<rparr>
       \<and> map (\<lambda>g. (f_id g, sender_id g, receiver_id g, f_created_at g))
             (friends (tables (snd (handleRequest user rid True (cr, st)))))
         = map (\<lambda>g. (f_id g, sender_id g, receiver_id g, f_created_at g)) (friends (tables st))
       \<and> map (\<lambda>g. (f_id g, sender_id g, receiver_id g, f_created_at g))
             (friends (tables (snd (handleFriendRequest (Some u) (Some i) new_id now (c, st)))))
         = map (\<lambda>g. (f_id g, sender_id g, receiver_id g, f_created_at g)) (friends (tables st))"
  unfolding tables_handleRequest_accept tables_handleFriendRequest_accept [OF assms]
  by (simp add: map_status_update_frame)

theorem accept_updates_status_only_witness:
  "friends (tables (snd (handleFriendRequest (Some ''alice'') (Some ''bob'') ''e2'' 2
       (profile_initial\<lparr>friendStatus := Some bob_asks_alice\<rparr>,
        \<lparr>online = True, tables = db_request\<rparr>))))
     = [\<lparr>f_id = ''e1'', sender_id = ''bob'', receiver_id = ''alice'', status = Accepted,
         f_created_at = 1\<rparr>]
   \<and> friends (tables (snd (handleRequest ''alice'' ''e1'' True
       (\<lparr>requests = [], rq_error = None\<rparr>, \<lparr>online = True, tables = db_request\<rparr>))))
     = [\<lparr>f_id = ''e1'', sender_id = ''bob'', receiver_id = ''alice'', status = Accepted,
         f_created_at = 1\<rparr>]"
  using accept_updates_status_only [of "profile_initial\<lparr>friendStatus := Some bob_asks_alice\<rparr>"
      bob_asks_alice "''alice''" "''alice''" "''e1''" "\<lparr>requests = [], rq_error = None\<rparr>"
      "\<lparr>online = True, tables = db_request\<rparr>" "''bob''" "''e2''" 2]
  by (simp add: bob_asks_alice_def db_request_def)

section \<open>Likes and shares\<close>

lemma one_like_per_pair_insert:
  "one_like_per_pair db \<Longrightarrow> one_like_per_pair (snd (likes_insert uid new_id now pid u db))"
  by (auto simp: likes_insert_def Let_def one_like_per_pair_def)

lemma one_like_per_pair_delete:
  "one_like_per_pair db \<Longrightarrow> one_like_per_pair (snd (likes_delete uid pid u db))"
  by (simp add: likes_delete_def one_like_per_pair_def distinct_map_filter)

lemma one_share_per_pair_insert:
  "one_share_per_pair db \<Longrightarrow> one_share_per_pair (snd (shared_posts_insert uid new_id now pid u db))"
  by (auto simp: shared_posts_insert_def Let_def one_share_per_pair_def)

lemma one_share_per_pair_delete:
  "one_share_per_pair db \<Longrightarrow> one_share_per_pair (snd (shared_posts_delete uid pid u db))"
  by (simp add: shared_posts_delete_def one_share_per_pair_def distinct_map_filter)

lemma likes_insert_duplicate:
  "\<exists>l \<in> set (likes db). l_post_id l = pid \<and> l_user_id l = u \<Longrightarrow>
   likes_insert uid new_id now pid u db =
     (Some (if uid = Some u then UniqueViolation else RlsViolation), db)"
  by (auto simp: likes_insert_def Let_def likes_insert_policy_def passes_simps)

lemma shared_posts_insert_duplicate:
  "\<exists>s \<in> set (shared_posts db). s_post_id s = pid \<and> s_user_id s = u \<Longrightarrow>
   shared_posts_insert uid new_id now pid u db =
     (Some (if uid = Some u then UniqueViolation else RlsViolation), db)"
  by (auto simp: shared_posts_insert_def Let_def shared_posts_insert_policy_def passes_simps)

lemma tables_toggleLike:
  "tables (snd (toggleLike user postId new_id now (c, st))) =
     (case user of None \<Rightarrow> tables st
      | Some u \<Rightarrow> if \<not> online st then tables st
                  else if existingLike (feed_posts c) postId u
                  then snd (likes_delete (Some u) postId u (tables st))
                  else snd (likes_insert (Some u) new_id now postId u (tables st)))"
  by (simp add: toggleLike_def Let_def tables_mutate split: option.splits)

lemma tables_sharePost:
  "tables (snd (sharePost user postId new_id now (c, st))) =
     (case user of None \<Rightarrow> tables st
      | Some u \<Rightarrow> if \<not> online st then tables st
                  else if alreadyShared (feed_posts c) postId u
                  then snd (shared_posts_delete (Some u) postId u (tables st))
                  else snd (shared_posts_insert (Some u) new_id now postId u (tables st)))"
  by (simp add: sharePost_def Let_def tables_mutate split: option.splits)

text \<open>
  C8. If no two rows of \<open>likes\<close> share their (post, user) pair, and no two rows of
  \<open>shared_posts\<close> do, the same holds after an insert or a delete on either table, by any
  caller and whatever the statement answers, and after \<open>toggleLike\<close> and \<open>sharePost\<close>.
  An insert for a pair that has a row is rejected, with a unique violation when the caller
  is the row's user, and the table is left as it was.
\<close>

theorem join_rows_unique:
  assumes "one_like_per_pair db" and "one_share_per_pair db"
  shows "one_like_per_pair (snd (likes_insert uid new_id now pid u db))
       \<and> one_like_per_pair (snd (likes_delete uid pid u db))
       \<and> one_share_per_pair (snd (shared_posts_insert uid new_id now pid u db))
       \<and> one_share_per_pair (snd (shared_posts_delete uid pid u db))
       \<and> one_like_per_pair (tables (snd (toggleLike user pid new_id now (c, \<lparr>online = b, tables = db\<rparr>))))
       \<and> one_share_per_pair (tables (snd (sharePost user pid new_id now (c, \<lparr>online = b, tables = db\<rparr>))))
       \<and> ((\<exists>l \<in> set (likes db). l_post_id l = pid \<and> l_user_id l = u) \<longrightarrow>
            likes_insert uid new_id now pid u db =
              (Some (if uid = Some u then UniqueViolation else RlsViolation), db))
       \<and> ((\<exists>s \<in> set (shared_posts db). s_post_id s = pid \<and> s_user_id s = u) \<longrightarrow>
            shared_posts_insert uid new_id now pid u db =
              (Some (if uid = Some u then UniqueViolation else RlsViolation), db))"
proof (intro conjI impI)
  show "one_like_per_pair (tables (snd (toggleLike user pid new_id now (c, \<lparr>online = b, tables = db\<rparr>))))"
    using assms(1)
    by (simp add: tables_toggleLike one_like_per_pair_insert one_like_per_pair_delete
        split: option.splits)
  show "one_share_per_pair (tables (snd (sharePost user pid new_id now (c, \<lparr>online = b, tables = db\<rparr>))))"
    using assms(2)
    by (simp add: tables_sharePost one_share_per_pair_insert one_share_per_pair_delete
        split: option.splits)
qed (use assms in \<open>simp_all add: one_like_per_pair_insert one_like_per_pair_delete
      one_share_per_pair_insert one_share_per_pair_delete likes_insert_duplicate
      shared_posts_insert_duplicate\<close>)

theorem join_rows_unique_witness:
  "one_like_per_pair db_social \<and> one_share_per_pair db_social
   \<and> likes_insert (Some ''bob'') ''l2'' 20 ''p1'' ''bob'' db_social = (Some UniqueViolation, db_social)
   \<and> shared_posts_insert (Some ''bob'') ''l2'' 20 ''p2'' ''bob'' db_social
        = (Some UniqueViolation, db_social)
   \<and> one_like_per_pair (snd (likes_insert (Some ''carol'') ''l2'' 20 ''p1'' ''carol'' db_social))
   \<and> likes (snd (likes_insert (Some ''carol'') ''l2'' 20 ''p1'' ''carol'' db_social)) =
        [like1,
         \<lparr>l_id = ''l2'', l_post_id = ''p1'', l_user_id = ''carol'', l_created_at = 20\<rparr>]"
proof -
  have l: "one_like_per_pair db_social" and s: "one_share_per_pair db_social"
    by (simp_all add: one_like_per_pair_def one_share_per_pair_def db_social_def post1_def post2_def like1_def share1_def comment1_def bob_and_alice_def)
  have e: "likes (snd (likes_insert (Some ''carol'') ''l2'' 20 ''p1'' ''carol'' db_social)) =
        [like1,
         \<lparr>l_id = ''l2'', l_post_id = ''p1'', l_user_id = ''carol'', l_created_at = 20\<rparr>]"
    by (simp add: likes_insert_def Let_def db_social_def post1_def post2_def like1_def share1_def comment1_def bob_and_alice_def likes_insert_policy_def passes_def
        sql_eq_def has_post_def has_profile_def alice_def bob_def carol_def)
  have x: "\<exists>l \<in> set (likes db_social). l_post_id l = ''p1'' \<and> l_user_id l = ''bob''"
    "\<exists>s \<in> set (shared_posts db_social). s_post_id s = ''p2'' \<and> s_user_id s = ''bob''"
    by (simp_all add: db_social_def post1_def post2_def like1_def share1_def comment1_def bob_and_alice_def)
  show ?thesis
    using join_rows_unique [OF l s, of "Some ''bob''" "''l2''" 20 "''p1''" "''bob''"]
      join_rows_unique [OF l s, of "Some ''bob''" "''l2''" 20 "''p2''" "''bob''"]
      join_rows_unique [OF l s, of "Some ''carol''" "''l2''" 20 "''p1''" "''carol''"] l s e x
    by simp
qed

section \<open>Editing and deleting posts and comments\<close>

lemma author_passes_select:
  "uid = Some (author_id p) \<Longrightarrow> passes (posts_select_policy uid db p)"
  by (simp add: passes_posts_select_policy)

lemma posts_update_target_iff:
  "posts_write_target posts_update_policy uid db pid a p \<longleftrightarrow>
     p_id p = pid \<and> author_id p = a \<and> uid = Some a"
  by (auto simp: posts_write_target_def posts_update_policy_def passes_simps author_passes_select)

lemma posts_delete_target_iff:
  "posts_write_target posts_delete_policy uid db pid a p \<longleftrightarrow>
     p_id p = pid \<and> author_id p = a \<and> uid = Some a"
  by (auto simp: posts_write_target_def posts_delete_policy_def passes_simps author_passes_select)

lemma posts_update_content_eq:
  "posts_update_content uid pid a new db =
     (None, db\<lparr>posts := map (\<lambda>p. if p_id p = pid \<and> author_id p = a \<and> uid = Some a
                                  then p\<lparr>p_content := new\<rparr> else p) (posts db)\<rparr>)"
  by (auto simp: posts_update_content_def posts_update_target_iff posts_update_policy_def passes_simps)

lemma comments_update_target_iff:
  "comments_update_target uid cid c \<longleftrightarrow> c_id c = cid \<and> uid = Some (c_user_id c)"
  by (auto simp: comments_update_target_def comments_update_policy_def passes_simps)

lemma comments_delete_target_iff:
  "comments_delete_target uid cid u c \<longleftrightarrow> c_id c = cid \<and> c_user_id c = u \<and> uid = Some u"
  by (auto simp: comments_delete_target_def comments_delete_policy_def passes_simps)

lemma comments_update_content_eq:
  "comments_update_content uid cid new db =
     (None, db\<lparr>comments := map (\<lambda>c. if c_id c = cid \<and> uid = Some (c_user_id c)
                                  then c\<lparr>c_content := new\<rparr> else c) (comments db)\<rparr>)"
  by (auto simp: comments_update_content_def comments_update_target_iff comments_update_policy_def passes_simps)

lemma unique_key:
  "distinct (map key xs) \<Longrightarrow> x \<in> set xs \<Longrightarrow> y \<in> set xs \<Longrightarrow> key y = key x \<Longrightarrow> y = x"
  by (meson distinct_map inj_onD)

lemma map_only_at:
  assumes "distinct (map key xs)" "x \<in> set xs"
  shows "map (\<lambda>y. if key y = key x \<and> P y then g y else y) xs =
         (if P x then map (\<lambda>y. if y = x then g x else y) xs else xs)"
proof -
  have "\<And>y. y \<in> set xs \<Longrightarrow>
      (if key y = key x \<and> P y then g y else y) =
      (if P x then (if y = x then g x else y) else y)"
    using unique_key [OF assms] by auto
  then have "map (\<lambda>y. if key y = key x \<and> P y then g y else y) xs =
      map (\<lambda>y. if P x then (if y = x then g x else y) else y) xs"
    by (rule map_cong [OF refl])
  then show ?thesis by (cases "P x") simp_all
qed

lemma filter_eq_singleton:
  "distinct xs \<Longrightarrow> x \<in> set xs \<Longrightarrow> filter (\<lambda>y. y = x) xs = [x]"
  by (induction xs) (auto simp: filter_empty_conv)

lemma filter_only_at:
  assumes "distinct (map key xs)" "x \<in> set xs"
  shows "filter (\<lambda>y. \<not> (key y = key x \<and> P y)) xs =
         (if P x then filter (\<lambda>y. y \<noteq> x) xs else xs)"
proof -
  have "\<And>y. y \<in> set xs \<Longrightarrow> (\<not> (key y = key x \<and> P y)) = (if P x then y \<noteq> x else True)"
    using unique_key [OF assms] by auto
  then have "filter (\<lambda>y. \<not> (key y = key x \<and> P y)) xs =
      filter (\<lambda>y. if P x then y \<noteq> x else True) xs"
    by (rule filter_cong [OF refl])
  then show ?thesis by (cases "P x") simp_all
qed

lemma posts_update_content_at:
  assumes "distinct (map p_id (posts db))" "p \<in> set (posts db)"
  shows "posts_update_content uid (p_id p) a new db =
     (None, if uid = Some (author_id p) \<and> a = author_id p
            then db\<lparr>posts := map (\<lambda>q. if q = p then p\<lparr>p_content := new\<rparr> else q) (posts db)\<rparr>
            else db)"
  unfolding posts_update_content_eq
  using map_only_at [OF assms, of "\<lambda>q. author_id q = a \<and> uid = Some a" "\<lambda>q. q\<lparr>p_content := new\<rparr>"]
  by (auto simp: conj_assoc)

lemma comments_update_content_at:
  assumes "distinct (map c_id (comments db))" "cm \<in> set (comments db)"
  shows "comments_update_content uid (c_id cm) new db =
     (None, if uid = Some (c_user_id cm)
            then db\<lparr>comments := map (\<lambda>q. if q = cm then cm\<lparr>c_content := new\<rparr> else q) (comments db)\<rparr>
            else db)"
  unfolding comments_update_content_eq
  using map_only_at [OF assms, of "\<lambda>q. uid = Some (c_user_id q)" "\<lambda>q. q\<lparr>c_content := new\<rparr>"]
  by auto

lemma comments_delete_at:
  assumes "distinct (map c_id (comments db))" "cm \<in> set (comments db)"
  shows "comments_delete uid (c_id cm) a db =
     (None, if uid = Some (c_user_id cm) \<and> a = c_user_id cm
            then db\<lparr>comments := filter (\<lambda>q. q \<noteq> cm) (comments db)\<rparr>
            else db)"
  unfolding comments_delete_def comments_delete_target_iff
  using filter_only_at [OF assms, of "\<lambda>q. c_user_id q = a \<and> uid = Some a"]
  by (auto simp: conj_assoc)

lemma posts_delete_nothing:
  assumes "distinct (map p_id (posts db))" "p \<in> set (posts db)"
      and "\<not> (uid = Some (author_id p) \<and> a = author_id p)"
  shows "posts_delete uid (p_id p) a db = (None, db)"
proof -
  have none: "\<not> posts_write_target posts_delete_policy uid db (p_id p) a q"
    if "q \<in> set (posts db)" for q
    using unique_key [OF assms(1,2) that] assms(3) by (auto simp: posts_delete_target_iff)
  then have "filter (posts_write_target posts_delete_policy uid db (p_id p) a) (posts db) = []"
    by (simp add: filter_empty_conv)
  moreover have "filter (\<lambda>q. \<not> posts_write_target posts_delete_policy uid db (p_id p) a q) (posts db)
      = posts db"
    using none by (simp add: filter_id_conv)
  ultimately show ?thesis
    by (simp add: posts_delete_def Let_def)
qed

lemma posts_delete_own:
  assumes "distinct (map p_id (posts db))" "p \<in> set (posts db)"
  shows "posts_delete (Some (author_id p)) (p_id p) (author_id p) db =
     (None, db\<lparr>posts := filter (\<lambda>q. q \<noteq> p) (posts db),
               likes := filter (\<lambda>l. l_post_id l \<noteq> p_id p) (likes db),
               comments := filter (\<lambda>c. c_post_id c \<noteq> p_id p) (comments db),
               shared_posts := filter (\<lambda>s. s_post_id s \<noteq> p_id p) (shared_posts db)\<rparr>)"
proof -
  have t: "posts_write_target posts_delete_policy (Some (author_id p)) db (p_id p) (author_id p) q
      \<longleftrightarrow> q = p" if "q \<in> set (posts db)" for q
    using unique_key [OF assms that] by (auto simp: posts_delete_target_iff)
  have "filter (posts_write_target posts_delete_policy (Some (author_id p)) db (p_id p) (author_id p))
          (posts db) = filter (\<lambda>q. q = p) (posts db)"
    by (rule filter_cong [OF refl]) (use t in simp)
  also have "\<dots> = [p]"
    using assms by (simp add: filter_eq_singleton distinct_map)
  finally have gone: "filter (posts_write_target posts_delete_policy (Some (author_id p)) db (p_id p)
      (author_id p)) (posts db) = [p]" .
  have kept: "filter (\<lambda>q. \<not> posts_write_target posts_delete_policy (Some (author_id p)) db (p_id p)
      (author_id p) q) (posts db) = filter (\<lambda>q. q \<noteq> p) (posts db)"
    by (rule filter_cong [OF refl]) (use t in simp)
  show ?thesis
    by (simp add: posts_delete_def Let_def gone kept)
qed


lemma fetchPosts_online_error:
  "feed_error (fetchPosts user c \<lparr>online = True, tables = db\<rparr>) = feed_error c"
  by (simp add: fetchPosts_def fetchPosts_from_def query_def Let_def)

lemma updatePost_non_author:
  assumes "distinct (map p_id (posts db))" "p \<in> set (posts db)" "user \<noteq> Some (author_id p)"
  shows "snd (updatePost user (p_id p) (c, \<lparr>online = True, tables = db\<rparr>))
           = \<lparr>online = True, tables = db\<rparr>
       \<and> feed_error (fst (updatePost user (p_id p) (c, \<lparr>online = True, tables = db\<rparr>)))
           = feed_error c"
proof (cases user)
  case None
  then show ?thesis by (simp add: updatePost_def)
next
  case (Some u)
  with assms(3) have "posts_update_content (Some u) (p_id p) u (editContent c) db = (None, db)"
    by (simp add: posts_update_content_at [OF assms(1,2)])
  with Some show ?thesis
    by (simp add: updatePost_def mutate_def fetchPosts_online_error)
qed

lemma deletePost_non_author:
  assumes "distinct (map p_id (posts db))" "p \<in> set (posts db)" "user \<noteq> Some (author_id p)"
  shows "snd (deletePost user (p_id p) (c, \<lparr>online = True, tables = db\<rparr>))
           = \<lparr>online = True, tables = db\<rparr>
       \<and> feed_error (fst (deletePost user (p_id p) (c, \<lparr>online = True, tables = db\<rparr>)))
           = feed_error c"
proof (cases user)
  case None
  then show ?thesis by (simp add: deletePost_def)
next
  case (Some u)
  with assms(3) have "posts_delete (Some u) (p_id p) u db = (None, db)"
    by (simp add: posts_delete_nothing [OF assms(1,2)])
  with Some show ?thesis
    by (simp add: deletePost_def mutate_def fetchPosts_online_error)
qed

lemma handleDeleteComment_non_author:
  assumes "distinct (map c_id (comments db))" "cm \<in> set (comments db)"
      and "user \<noteq> Some (c_user_id cm)"
  shows "snd (handleDeleteComment user ident (c_id cm) (d, \<lparr>online = True, tables = db\<rparr>))
           = \<lparr>online = True, tables = db\<rparr>
       \<and> detail_error (fst (handleDeleteComment user ident (c_id cm)
             (d, \<lparr>online = True, tables = db\<rparr>))) = detail_error d"
proof (cases user)
  case None
  then show ?thesis by (simp add: handleDeleteComment_def)
next
  case (Some u)
  with assms(3) have "comments_delete (Some u) (c_id cm) u db = (None, db)"
    by (simp add: comments_delete_at [OF assms(1,2)])
  with Some show ?thesis
    by (simp add: handleDeleteComment_def mutate_def fetchComments_def query_def)
qed

text \<open>
  C6. Let \<open>p\<close> be a post and \<open>cm\<close> a comment of the tables (ids are primary keys).
  The UPDATE and the DELETE of \<open>p\<close> change it exactly when the caller is its author (and
  the \<open>author_id\<close> the statement filters on is the author's); the UPDATE and the DELETE of
  \<open>cm\<close> change it exactly when the caller is the comment's user. Sent by anyone else the
  statement matches no row: the tables are as before and the store answers without an
  error, so \<open>updatePost\<close>, \<open>deletePost\<close> and \<open>handleDeleteComment\<close> of a user who is
  not the author leave the store as it was and set no error.
\<close>

theorem mutation_only_by_author:
  assumes "distinct (map p_id (posts db))" and "p \<in> set (posts db)"
      and "distinct (map c_id (comments db))" and "cm \<in> set (comments db)"
  shows "posts_update_content uid (p_id p) a new db =
           (None, if uid = Some (author_id p) \<and> a = author_id p
                  then db\<lparr>posts := map (\<lambda>q. if q = p then p\<lparr>p_content := new\<rparr> else q) (posts db)\<rparr>
                  else db)
       \<and> posts_delete uid (p_id p) a db =
           (None, if uid = Some (author_id p) \<and> a = author_id p
                  then db\<lparr>posts := filter (\<lambda>q. q \<noteq> p) (posts db),
                          likes := filter (\<lambda>l. l_post_id l \<noteq> p_id p) (likes db),
                          comments := filter (\<lambda>c. c_post_id c \<noteq> p_id p) (comments db),
                          shared_posts := filter (\<lambda>s. s_post_id s \<noteq> p_id p) (shared_posts db)\<rparr>
                  else db)
       \<and> comments_update_content uid (c_id cm) new db =
           (None, if uid = Some (c_user_id cm)
                  then db\<lparr>comments := map (\<lambda>q. if q = cm then cm\<lparr>c_content := new\<rparr> else q)
                                          (comments db)\<rparr>
                  else db)
       \<and> comments_delete uid (c_id cm) a db =
           (None, if uid = Some (c_user_id cm) \<and> a = c_user_id cm
                  then db\<lparr>comments := filter (\<lambda>q. q \<noteq> cm) (comments db)\<rparr>
                  else db)
       \<and> (user \<noteq> Some (author_id p) \<longrightarrow>
            snd (updatePost user (p_id p) (c, \<lparr>online = True, tables = db\<rparr>))
              = \<lparr>online = True, tables = db\<rparr> \<and>
            feed_error (fst (updatePost user (p_id p) (c, \<lparr>online = True, tables = db\<rparr>)))
              = feed_error c \<and>
            snd (deletePost user (p_id p) (c, \<lparr>online = True, tables = db\<rparr>))
              = \<lparr>online = True, tables = db\<rparr> \<and>
            feed_error (fst (deletePost user (p_id p) (c, \<lparr>online = True, tables = db\<rparr>)))
              = feed_error c)
       \<and> (user \<noteq> Some (c_user_id cm) \<longrightarrow>
            snd (handleDeleteComment user ident (c_id cm) (d, \<lparr>online = True, tables = db\<rparr>))
              = \<lparr>online = True, tables = db\<rparr> \<and>
            detail_error (fst (handleDeleteComment user ident (c_id cm)
              (d, \<lparr>online = True, tables = db\<rparr>))) = detail_error d)"
proof (intro conjI impI)
  show "posts_delete uid (p_id p) a db =
           (None, if uid = Some (author_id p) \<and> a = author_id p
                  then db\<lparr>posts := filter (\<lambda>q. q \<noteq> p) (posts db),
                          likes := filter (\<lambda>l. l_post_id l \<noteq> p_id p) (likes db),
                          comments := filter (\<lambda>c. c_post_id c \<noteq> p_id p) (comments db),
                          shared_posts := filter (\<lambda>s. s_post_id s \<noteq> p_id p) (shared_posts db)\<rparr>
                  else db)"
    using posts_delete_own [OF assms(1,2)] posts_delete_nothing [OF assms(1,2), of uid a]
    by (cases "uid = Some (author_id p) \<and> a = author_id p") auto
qed (use assms in \<open>simp_all add: posts_update_content_at comments_update_content_at
      comments_delete_at updatePost_non_author deletePost_non_author
      handleDeleteComment_non_author\<close>)


lemmas example_defs = alice_def bob_def carol_def post1_def post2_def like1_def comment1_def
  share1_def bob_and_alice_def db_social_def

lemma db_social_keys:
  "distinct (map p_id (posts db_social))" "post1 \<in> set (posts db_social)"
  "distinct (map c_id (comments db_social))" "comment1 \<in> set (comments db_social)"
  by (simp_all add: example_defs)

theorem mutation_only_by_author_witness:
  "posts_update_content (Some ''bob'') ''p1'' ''bob'' ''edited'' db_social = (None, db_social)
   \<and> posts_update_content (Some ''alice'') ''p1'' ''alice'' ''edited'' db_social =
       (None, db_social\<lparr>posts := [post1\<lparr>p_content := ''edited''\<rparr>, post2]\<rparr>)
   \<and> posts_delete (Some ''bob'') ''p1'' ''alice'' db_social = (None, db_social)
   \<and> comments_delete (Some ''alice'') ''c1'' ''alice'' db_social = (None, db_social)
   \<and> comments_delete (Some ''bob'') ''c1'' ''bob'' db_social =
       (None, db_social\<lparr>comments := []\<rparr>)"
proof -
  note t = mutation_only_by_author [OF db_social_keys]
  have i: "p_id post1 = ''p1''" "author_id post1 = ''alice''" "c_id comment1 = ''c1''"
    "c_user_id comment1 = ''bob''"
    by (simp_all add: example_defs)
  have l: "posts db_social = [post1, post2]" "comments db_social = [comment1]"
    "post1 \<noteq> post2" "post2 \<noteq> post1"
    by (simp_all add: example_defs)
  show ?thesis
    using t [of "Some ''bob''" "''bob''" "''edited''", THEN conjunct1]
      t [of "Some ''alice''" "''alice''" "''edited''", THEN conjunct1]
      t [of "Some ''bob''" "''alice''", THEN conjunct2, THEN conjunct1]
      t [of "Some ''alice''" "''alice''", THEN conjunct2, THEN conjunct2, THEN conjunct2, THEN conjunct1]
      t [of "Some ''bob''" "''bob''", THEN conjunct2, THEN conjunct2, THEN conjunct2, THEN conjunct1]
    by (simp add: i l)
qed

text \<open>
  The claim as stated asks for an authorization error. Bob edits alice's post, carol
  deletes bob's comment: no statement and no handler reports an error.
\<close>

theorem non_author_mutation_reports_no_error:
  "fst (posts_update_content (Some ''bob'') ''p1'' ''bob'' ''edited'' db_social) = None
   \<and> feed_error (fst (updatePost (Some ''bob'') ''p1''
        (feed_initial\<lparr>editContent := ''edited''\<rparr>, \<lparr>online = True, tables = db_social\<rparr>))) = None
   \<and> fst (comments_delete (Some ''carol'') ''c1'' ''carol'' db_social) = None
   \<and> detail_error (fst (handleDeleteComment (Some ''carol'') ''p1'' ''c1''
        (detail_initial, \<lparr>online = True, tables = db_social\<rparr>))) = None"
proof -
  have i: "p_id post1 = ''p1''" "author_id post1 = ''alice''" "c_id comment1 = ''c1''"
    "c_user_id comment1 = ''bob''"
    by (simp_all add: example_defs)
  have a: "fst (posts_update_content (Some ''bob'') ''p1'' ''bob'' ''edited'' db_social) = None"
    by (simp add: posts_update_content_eq)
  have b: "fst (comments_delete (Some ''carol'') ''c1'' ''carol'' db_social) = None"
    by (simp add: comments_delete_def)
  have c: "feed_error (fst (updatePost (Some ''bob'') ''p1''
        (feed_initial\<lparr>editContent := ''edited''\<rparr>, \<lparr>online = True, tables = db_social\<rparr>))) = None"
    using updatePost_non_author [OF db_social_keys(1,2), of "Some ''bob''"
        "feed_initial\<lparr>editContent := ''edited''\<rparr>"]
    by (simp add: i feed_initial_def)
  have d: "detail_error (fst (handleDeleteComment (Some ''carol'') ''p1'' ''c1''
        (detail_initial, \<lparr>online = True, tables = db_social\<rparr>))) = None"
    using handleDeleteComment_non_author [OF db_social_keys(3,4), of "Some ''carol''" "''p1''"
        detail_initial]
    by (simp add: i detail_initial_def)
  show ?thesis using a b c d by simp
qed

section \<open>A fetch that fails\<close>

lemma carol_sees:
  "posts_visible (Some ''carol'') db_social = [post1]"
  by (simp add: posts_visible_def passes_posts_select_policy example_defs)

lemma carol_shared_feed:
  "shared_feed (Some ''carol'') db_social =
     [\<lparr>sv_post_id = ''p2'', sv_profiles = embed_profile db_social ''bob'', sv_posts = None\<rparr>]"
proof -
  have s: "shared_posts db_social = [share1]" by (simp add: example_defs)
  have i: "s_post_id share1 = ''p2''" "s_user_id share1 = ''bob''" "p_id post1 = ''p1''"
    by (simp_all add: example_defs)
  show ?thesis
    by (simp add: shared_feed_def order_desc_def s view_share_def carol_sees i)
qed

lemma carol_feed:
  "feed_posts (fetchPosts (Some ''carol'') feed_initial \<lparr>online = True, tables = db_social\<rparr>)
     = [view_post db_social post1]"
  by (simp add: fetchPosts_def fetchPosts_from_def query_def Let_def carol_shared_feed
      posts_feed_def carol_sees order_desc_def List.map_filter_def)

lemma fetchPosts_offline:
  "fetchPosts user c \<lparr>online = False, tables = db\<rparr> =
     c\<lparr>feed_error := Some (Unreachable, ''Failed to fetch posts''), feed_loading := False\<rparr>"
  by (simp add: fetchPosts_def fetchPosts_from_def query_def)

text \<open>
  C9. A fetch of the feed in which a read answers with an error (the store is
  unreachable) brings no post into the component: \<open>posts\<close> is what it was before the
  fetch, the error is recorded and \<open>loading\<close> is cleared. On the first fetch after
  mounting \<open>posts\<close> is therefore empty.
\<close>

theorem fetchPosts_error_keeps_posts:
  "fetchPosts_from (Inl e) sharedAnswer c =
     c\<lparr>feed_error := Some (e, ''Failed to fetch posts''), feed_loading := False\<rparr>
   \<and> fetchPosts_from (Inr originalPosts) (Inl e) c =
     c\<lparr>feed_error := Some (e, ''Failed to fetch posts''), feed_loading := False\<rparr>
   \<and> fetchPosts user c \<lparr>online = False, tables = db\<rparr> =
     c\<lparr>feed_error := Some (Unreachable, ''Failed to fetch posts''), feed_loading := False\<rparr>
   \<and> feed_posts (fetchPosts user c \<lparr>online = False, tables = db\<rparr>) = feed_posts c
   \<and> feed_posts (fetchPosts user feed_initial \<lparr>online = False, tables = db\<rparr>) = []"
  by (simp add: fetchPosts_def fetchPosts_from_def query_def feed_initial_def)

text \<open>
  The claim as stated says the failed fetch yields an empty result. Carol's feed holds
  alice's public post; a later fetch with the store unreachable leaves it there.
\<close>

theorem failed_fetch_keeps_stale_posts:
  "feed_posts (fetchPosts (Some ''carol'')
       (fetchPosts (Some ''carol'') feed_initial \<lparr>online = True, tables = db_social\<rparr>)
       \<lparr>online = False, tables = db_social\<rparr>) = [view_post db_social post1]
   \<and> [view_post db_social post1] \<noteq> []"
  by (simp add: fetchPosts_offline carol_feed)

section \<open>The read paths of a post\<close>

lemma set_order_desc: "set (order_desc key rows) = set rows"
  by (simp add: order_desc_def)

lemma find_as_filter:
  "find P xs = (case filter P xs of [] \<Rightarrow> None | x # _ \<Rightarrow> Some x)"
  by (induction xs) auto

lemma filter_key_singleton:
  assumes "distinct (map key xs)" "x \<in> set xs"
  shows "filter (\<lambda>y. key y = key x) xs = [x]"
proof -
  have "filter (\<lambda>y. key y = key x) xs = filter (\<lambda>y. y = x) xs"
    by (rule filter_cong [OF refl]) (use unique_key [OF assms] in auto)
  then show ?thesis
    using assms by (simp add: filter_eq_singleton distinct_map)
qed

lemma posts_visible_by_id:
  assumes "distinct (map p_id (posts db))" "p \<in> set (posts db)"
  shows "filter (\<lambda>q. p_id q = p_id p) (posts_visible uid db) =
           (if passes (posts_select_policy uid db p) then [p] else [])"
proof -
  have "filter (\<lambda>q. p_id q = p_id p) (posts_visible uid db) =
        filter (\<lambda>q. passes (posts_select_policy uid db q)) (filter (\<lambda>q. p_id q = p_id p) (posts db))"
    by (simp add: posts_visible_def conj_commute)
  then show ?thesis
    by (simp add: filter_key_singleton [OF assms])
qed

lemma set_posts_visible:
  "set (posts_visible uid db) = {p \<in> set (posts db). passes (posts_select_policy uid db p)}"
  by (simp add: posts_visible_def)

lemma posts_by_id_at:
  assumes "distinct (map p_id (posts db))" "p \<in> set (posts db)"
  shows "posts_by_id uid (p_id p) db =
           (if passes (posts_select_policy uid db p) then Inr (detail_post db p)
            else Inl PGRST116)"
  by (simp add: posts_by_id_def posts_visible_by_id [OF assms] single_def)

lemma view_share_at:
  assumes "distinct (map p_id (posts db))" "p \<in> set (posts db)" "s_post_id s = p_id p"
  shows "sv_posts (view_share uid db s) =
           (if passes (posts_select_policy uid db p) then Some (view_post db p) else None)"
  by (simp add: view_share_def find_as_filter assms(3) posts_visible_by_id [OF assms(1,2)])

lemma pv_row_view_post: "pv_row (view_post db p) = p"
  by (simp add: view_post_def)

lemma pp_row_profile_post_of: "pp_row (profile_post_of db p) = p"
  by (simp add: profile_post_of_def)

lemma in_posts_feed:
  "(\<exists>v \<in> set (posts_feed uid db). pv_row v = p) \<longleftrightarrow>
     p \<in> set (posts db) \<and> passes (posts_select_policy uid db p)"
  by (auto simp: posts_feed_def set_order_desc set_posts_visible pv_row_view_post)

lemma in_posts_by_author:
  "(\<exists>v \<in> set (posts_by_author uid a db). pp_row v = p) \<longleftrightarrow>
     p \<in> set (posts db) \<and> author_id p = a \<and> passes (posts_select_policy uid db p)"
  by (auto simp: posts_by_author_def set_order_desc set_posts_visible pp_row_profile_post_of)

lemma sv_posts_visible:
  "sv_posts (view_share uid db s) = Some v \<Longrightarrow>
     pv_row v \<in> set (posts db) \<and> passes (posts_select_policy uid db (pv_row v)) \<and>
     p_id (pv_row v) = s_post_id s \<and> v = view_post db (pv_row v)"
proof -
  assume "sv_posts (view_share uid db s) = Some v"
  then obtain q where q: "find (\<lambda>p. p_id p = s_post_id s) (posts_visible uid db) = Some q"
    and v: "v = view_post db q"
    by (auto simp: view_share_def)
  from q have "q \<in> set (posts_visible uid db)" "p_id q = s_post_id s"
    by (auto simp: find_Some_iff)
  with v show ?thesis
    by (simp add: set_posts_visible pv_row_view_post)
qed

lemma set_map_filter_Some:
  "set (List.map_filter f xs) = {y. \<exists>x \<in> set xs. f x = Some y}"
  by (induction xs) (auto split: option.splits)

lemma set_feed_posts_online:
  "set (feed_posts (fetchPosts uid c \<lparr>online = True, tables = db\<rparr>)) =
     set (posts_feed uid db) \<union>
     {v\<lparr>shared_by := Some (sv_profiles sh)\<rparr> | v sh.
        sh \<in> set (shared_feed uid db) \<and> sv_posts sh = Some v}"
  by (auto simp: fetchPosts_def fetchPosts_from_def query_def Let_def set_order_desc
      set_map_filter_Some)

lemma in_feed_posts:
  assumes "p \<in> set (posts db)"
  shows "(\<exists>v \<in> set (feed_posts (fetchPosts uid c \<lparr>online = True, tables = db\<rparr>)). pv_row v = p)
     \<longleftrightarrow> passes (posts_select_policy uid db p)"
proof
  assume "\<exists>v \<in> set (feed_posts (fetchPosts uid c \<lparr>online = True, tables = db\<rparr>)). pv_row v = p"
  then obtain v where v: "v \<in> set (feed_posts (fetchPosts uid c \<lparr>online = True, tables = db\<rparr>))"
    and r: "pv_row v = p" by blast
  from v consider "v \<in> set (posts_feed uid db)"
    | w sh where "v = w\<lparr>shared_by := Some (sv_profiles sh)\<rparr>" "sh \<in> set (shared_feed uid db)"
        "sv_posts sh = Some w"
    unfolding set_feed_posts_online by blast
  then show "passes (posts_select_policy uid db p)"
  proof cases
    case 1
    with r show ?thesis using in_posts_feed [of uid db p] by blast
  next
    case 2
    from 2(2) obtain s where "sh = view_share uid db s"
      by (auto simp: shared_feed_def)
    with 2(3) sv_posts_visible [of uid db s w] have "passes (posts_select_policy uid db (pv_row w))"
      by simp
    with 2(1) r show ?thesis by simp
  qed
next
  assume "passes (posts_select_policy uid db p)"
  with assms have "\<exists>v \<in> set (posts_feed uid db). pv_row v = p"
    by (simp add: in_posts_feed)
  then show "\<exists>v \<in> set (feed_posts (fetchPosts uid c \<lparr>online = True, tables = db\<rparr>)). pv_row v = p"
    unfolding set_feed_posts_online by blast
qed


lemma shared_by_posts_feed: "v \<in> set (posts_feed uid db) \<Longrightarrow> shared_by v = None"
  by (auto simp: posts_feed_def view_post_def)

lemma in_feed_posts_original:
  assumes "p \<in> set (posts db)"
  shows "(\<exists>v \<in> set (feed_posts (fetchPosts uid c \<lparr>online = True, tables = db\<rparr>)).
            pv_row v = p \<and> shared_by v = None)
     \<longleftrightarrow> passes (posts_select_policy uid db p)"
proof
  assume "\<exists>v \<in> set (feed_posts (fetchPosts uid c \<lparr>online = True, tables = db\<rparr>)).
            pv_row v = p \<and> shared_by v = None"
  then show "passes (posts_select_policy uid db p)"
    using in_feed_posts [OF assms, of uid c] by blast
next
  assume "passes (posts_select_policy uid db p)"
  with assms obtain v where "v \<in> set (posts_feed uid db)" "pv_row v = p"
    using in_posts_feed [of uid db p] by blast
  then show "\<exists>v \<in> set (feed_posts (fetchPosts uid c \<lparr>online = True, tables = db\<rparr>)).
            pv_row v = p \<and> shared_by v = None"
    unfolding set_feed_posts_online using shared_by_posts_feed by blast
qed

lemma in_feed_posts_shared:
  assumes "distinct (map p_id (posts db))" "p \<in> set (posts db)"
      and "s \<in> set (shared_posts db)" "s_post_id s = p_id p"
  shows "(\<exists>v \<in> set (feed_posts (fetchPosts uid c \<lparr>online = True, tables = db\<rparr>)).
            pv_row v = p \<and> shared_by v = Some (embed_profile db (s_user_id s)))
     \<longleftrightarrow> passes (posts_select_policy uid db p)"
proof
  assume "\<exists>v \<in> set (feed_posts (fetchPosts uid c \<lparr>online = True, tables = db\<rparr>)).
            pv_row v = p \<and> shared_by v = Some (embed_profile db (s_user_id s))"
  then show "passes (posts_select_policy uid db p)"
    using in_feed_posts [OF assms(2), of uid c] by blast
next
  assume vis: "passes (posts_select_policy uid db p)"
  let ?sh = "view_share uid db s"
  let ?v = "(view_post db p)\<lparr>shared_by := Some (sv_profiles ?sh)\<rparr>"
  have "?sh \<in> set (shared_feed uid db)"
    using assms(3) by (simp add: shared_feed_def set_order_desc)
  moreover have "sv_posts ?sh = Some (view_post db p)"
    using view_share_at [OF assms(1,2,4), of uid] vis by simp
  ultimately have "?v \<in> set (feed_posts (fetchPosts uid c \<lparr>online = True, tables = db\<rparr>))"
    unfolding set_feed_posts_online by blast
  moreover have "pv_row ?v = p" "shared_by ?v = Some (embed_profile db (s_user_id s))"
    by (simp_all add: pv_row_view_post view_share_def)
  ultimately show "\<exists>v \<in> set (feed_posts (fetchPosts uid c \<lparr>online = True, tables = db\<rparr>)).
            pv_row v = p \<and> shared_by v = Some (embed_profile db (s_user_id s))"
    by blast
qed

lemma fetchPost_at:
  assumes "distinct (map p_id (posts db))" "p \<in> set (posts db)"
  shows "post (fetchPost uid (p_id p) d \<lparr>online = True, tables = db\<rparr>) =
           (if passes (posts_select_policy uid db p) then Some (detail_post db p) else post d)"
  by (simp add: fetchPost_def query_def posts_by_id_at [OF assms])

lemma in_profile_posts:
  assumes "p \<in> set (posts db)"
  shows "(\<exists>v \<in> set (profile_posts (fetchUserPosts uid (author_id p) pc
              \<lparr>online = True, tables = db\<rparr>)). pp_row v = p)
     \<longleftrightarrow> passes (posts_select_policy uid db p)"
  using in_posts_by_author [of uid "author_id p" db p] assms
  by (simp add: fetchUserPosts_def query_def)

text \<open>
  C7. Let \<open>p\<close> be a post of the tables (ids are primary keys) and \<open>s\<close> a share of it.
  For every viewer the decision is the same on every read path, namely the SELECT policy
  of \<open>posts\<close>: the read of the single post (\<open>fetchPost\<close>) gives \<open>p\<close> exactly when the
  viewer passes the policy, and answers \<open>PGRST116\<close> otherwise; the feed (\<open>fetchPosts\<close>)
  holds \<open>p\<close> as a post of its own exactly then; the share's embedded post is \<open>p\<close>
  exactly then and \<open>null\<close> otherwise, so the feed holds \<open>p\<close> as shared by the share's
  user exactly then; and the author's profile page (\<open>fetchUserPosts\<close>) holds \<open>p\<close>
  exactly then.
\<close>

theorem visibility_same_on_every_read_path:
  assumes "distinct (map p_id (posts db))" and "p \<in> set (posts db)"
      and "s \<in> set (shared_posts db)" and "s_post_id s = p_id p"
  shows "posts_by_id uid (p_id p) db =
           (if passes (posts_select_policy uid db p) then Inr (detail_post db p)
            else Inl PGRST116)
       \<and> post (fetchPost uid (p_id p) d \<lparr>online = True, tables = db\<rparr>) =
           (if passes (posts_select_policy uid db p) then Some (detail_post db p) else post d)
       \<and> (\<exists>v \<in> set (feed_posts (fetchPosts uid c \<lparr>online = True, tables = db\<rparr>)).
             pv_row v = p \<and> shared_by v = None)
           = passes (posts_select_policy uid db p)
       \<and> sv_posts (view_share uid db s) =
           (if passes (posts_select_policy uid db p) then Some (view_post db p) else None)
       \<and> (\<exists>v \<in> set (feed_posts (fetchPosts uid c \<lparr>online = True, tables = db\<rparr>)).
             pv_row v = p \<and> shared_by v = Some (embed_profile db (s_user_id s)))
           = passes (posts_select_policy uid db p)
       \<and> (\<exists>v \<in> set (profile_posts (fetchUserPosts uid (author_id p) pc
                \<lparr>online = True, tables = db\<rparr>)). pp_row v = p)
           = passes (posts_select_policy uid db p)"
  using posts_by_id_at [OF assms(1,2)] fetchPost_at [OF assms(1,2)]
    in_feed_posts_original [OF assms(2)] view_share_at [OF assms(1,2,4)]
    in_feed_posts_shared [OF assms] in_profile_posts [OF assms(2)]
  by blast


lemma post2_readers:
  "passes (posts_select_policy (Some ''bob'') db_social post2)"
  "\<not> passes (posts_select_policy (Some ''carol'') db_social post2)"
  "\<not> passes (posts_select_policy None db_social post2)"
  by (simp_all add: passes_posts_select_policy example_defs)

theorem visibility_same_on_every_read_path_witness:
  "posts_by_id (Some ''bob'') ''p2'' db_social = Inr (detail_post db_social post2)
   \<and> sv_posts (view_share (Some ''bob'') db_social share1) = Some (view_post db_social post2)
   \<and> posts_by_id (Some ''carol'') ''p2'' db_social = Inl PGRST116
   \<and> sv_posts (view_share (Some ''carol'') db_social share1) = None
   \<and> posts_by_id None ''p2'' db_social = Inl PGRST116
   \<and> sv_posts (view_share None db_social share1) = None"
proof -
  have k: "distinct (map p_id (posts db_social))" "post2 \<in> set (posts db_social)"
    "share1 \<in> set (shared_posts db_social)" "s_post_id share1 = p_id post2"
    by (simp_all add: example_defs)
  have i: "p_id post2 = ''p2''" by (simp add: example_defs)
  note t = visibility_same_on_every_read_path [OF k, unfolded i]
  show ?thesis
    using t [of "Some ''bob''"] t [of "Some ''carol''"] t [of None] post2_readers
    by simp
qed

section \<open>Toggling a like twice\<close>

lemma likes_delete_own:
  "snd (likes_delete (Some u) pid u db) =
     db\<lparr>likes := filter (\<lambda>l. \<not> (l_post_id l = pid \<and> l_user_id l = u)) (likes db)\<rparr>"
  by (simp add: likes_delete_def likes_delete_target_def likes_delete_policy_def passes_simps)

lemma likes_insert_own:
  assumes "\<not> (\<exists>l \<in> set (likes db). l_id l = n)" "(pid, u) \<notin> like_set db"
      and "has_post db pid" "has_profile db u"
  shows "snd (likes_insert (Some u) n t pid u db) =
     db\<lparr>likes := likes db @ [\<lparr>l_id = n, l_post_id = pid, l_user_id = u, l_created_at = t\<rparr>]\<rparr>"
  using assms
  by (auto simp: likes_insert_def Let_def likes_insert_policy_def passes_simps like_set_def image_iff)

lemma posts_select_policy_likes:
  "posts_select_policy uid (db\<lparr>likes := ls\<rparr>) p = posts_select_policy uid db p"
  by (simp add: posts_select_policy_def friends_visible_def)

lemma posts_visible_likes: "posts_visible uid (db\<lparr>likes := ls\<rparr>) = posts_visible uid db"
  by (simp add: posts_visible_def posts_select_policy_likes)

lemma displayed_iff:
  "(\<exists>v \<in> set (feed_posts (fetchPosts uid c \<lparr>online = True, tables = db\<rparr>)). p_id (pv_row v) = pid)
     \<longleftrightarrow> (\<exists>p \<in> set (posts_visible uid db). p_id p = pid)"
proof
  assume "\<exists>v \<in> set (feed_posts (fetchPosts uid c \<lparr>online = True, tables = db\<rparr>)). p_id (pv_row v) = pid"
  then obtain v where v: "v \<in> set (feed_posts (fetchPosts uid c \<lparr>online = True, tables = db\<rparr>))"
    and i: "p_id (pv_row v) = pid" by blast
  from v consider "v \<in> set (posts_feed uid db)"
    | w sh where "v = w\<lparr>shared_by := Some (sv_profiles sh)\<rparr>" "sh \<in> set (shared_feed uid db)"
        "sv_posts sh = Some w"
    unfolding set_feed_posts_online by blast
  then have "pv_row v \<in> set (posts_visible uid db)"
  proof cases
    case 1
    then show ?thesis
      by (auto simp: posts_feed_def set_order_desc pv_row_view_post)
  next
    case 2
    from 2(2) obtain s where "sh = view_share uid db s"
      by (auto simp: shared_feed_def)
    with 2(3) sv_posts_visible [of uid db s w] have "pv_row w \<in> set (posts_visible uid db)"
      by (simp add: set_posts_visible)
    with 2(1) show ?thesis by simp
  qed
  with i show "\<exists>p \<in> set (posts_visible uid db). p_id p = pid" by blast
next
  assume "\<exists>p \<in> set (posts_visible uid db). p_id p = pid"
  then obtain p where "p \<in> set (posts_visible uid db)" "p_id p = pid" by blast
  then have "view_post db p \<in> set (posts_feed uid db)" "p_id (pv_row (view_post db p)) = pid"
    by (simp_all add: posts_feed_def set_order_desc pv_row_view_post)
  then show "\<exists>v \<in> set (feed_posts (fetchPosts uid c \<lparr>online = True, tables = db\<rparr>)). p_id (pv_row v) = pid"
    unfolding set_feed_posts_online by blast
qed

lemma pv_likes_fetched:
  assumes "v \<in> set (feed_posts (fetchPosts uid c \<lparr>online = True, tables = db\<rparr>))"
  shows "pv_likes v = embed_likes db (p_id (pv_row v))"
proof -
  from assms consider "v \<in> set (posts_feed uid db)"
    | w sh where "v = w\<lparr>shared_by := Some (sv_profiles sh)\<rparr>" "sh \<in> set (shared_feed uid db)"
        "sv_posts sh = Some w"
    unfolding set_feed_posts_online by blast
  then show ?thesis
  proof cases
    case 1
    then show ?thesis by (auto simp: posts_feed_def view_post_def)
  next
    case 2
    from 2(2) obtain s where "sh = view_share uid db s"
      by (auto simp: shared_feed_def)
    with 2(3) sv_posts_visible [of uid db s w] have "w = view_post db (pv_row w)"
      by simp
    then have "pv_likes w = embed_likes db (p_id (pv_row w))"
      by (metis post_view.select_convs(3) view_post_def)
    with 2(1) show ?thesis by simp
  qed
qed

lemma existingLike_fetched:
  assumes "\<exists>v \<in> set (feed_posts (fetchPosts uid c \<lparr>online = True, tables = db\<rparr>)). p_id (pv_row v) = pid"
  shows "existingLike (feed_posts (fetchPosts uid c \<lparr>online = True, tables = db\<rparr>)) pid u
     \<longleftrightarrow> (pid, u) \<in> like_set db"
proof -
  let ?ps = "feed_posts (fetchPosts uid c \<lparr>online = True, tables = db\<rparr>)"
  from assms obtain v where f: "find (\<lambda>p. p_id (pv_row p) = pid) ?ps = Some v"
    by (cases "find (\<lambda>p. p_id (pv_row p) = pid) ?ps") (auto simp: find_None_iff)
  then have "v \<in> set ?ps" "p_id (pv_row v) = pid"
    by (auto simp: find_Some_iff)
  then have "pv_likes v = embed_likes db pid"
    using pv_likes_fetched by blast
  with f show ?thesis
    by (auto simp: existingLike_def embed_likes_def like_set_def image_iff)
qed

lemma toggleLike_online:
  "toggleLike (Some u) pid n t (c, \<lparr>online = True, tables = db\<rparr>) =
     (fetchPosts (Some u) c
        \<lparr>online = True,
         tables = (if existingLike (feed_posts c) pid u then snd (likes_delete (Some u) pid u db)
                   else snd (likes_insert (Some u) n t pid u db))\<rparr>,
      \<lparr>online = True,
       tables = (if existingLike (feed_posts c) pid u then snd (likes_delete (Some u) pid u db)
                 else snd (likes_insert (Some u) n t pid u db))\<rparr>)"
  by (simp add: toggleLike_def Let_def mutate_def split: prod.splits)


lemma like_set_delete:
  "like_set (db\<lparr>likes := filter (\<lambda>l. \<not> (l_post_id l = pid \<and> l_user_id l = u)) (likes db)\<rparr>)
     = like_set db - {(pid, u)}"
  by (auto simp: like_set_def)

lemma like_set_append:
  "like_set (db\<lparr>likes := likes db @ [\<lparr>l_id = n, l_post_id = pid, l_user_id = u, l_created_at = t\<rparr>]\<rparr>)
     = insert (pid, u) (like_set db)"
  by (auto simp: like_set_def)

lemma has_post_visible: "p \<in> set (posts_visible uid db) \<Longrightarrow> has_post db (p_id p)"
  by (auto simp: has_post_def set_posts_visible)

text \<open>
  C5. A signed-in user \<open>u\<close> (who has a profile) toggles the like of a post that \<open>u\<close>
  may read twice, the second time on the component as the first toggle left it (its
  fetch has answered). The store is reachable, the identifiers it draws for new rows are fresh, and
  the component's posts agree with the store on whether \<open>u\<close> likes the post. Then after
  the first toggle the pair (post, \<open>u\<close>) is out of the like set if it was in, and in if it
  was out; after the second toggle the like set is the original one. (A row inserted
  again has a new \<open>id\<close> and \<open>created_at\<close>: it is the set of pairs that returns.)
\<close>

theorem toggleLike_twice:
  assumes "existingLike (feed_posts c) postId u \<longleftrightarrow> (postId, u) \<in> like_set db"
      and "\<exists>p \<in> set (posts_visible (Some u) db). p_id p = postId"
      and "has_profile db u"
      and "\<not> (\<exists>l \<in> set (likes db). l_id l = n1)"
      and "\<not> (\<exists>l \<in> set (likes db). l_id l = n2)"
  shows "like_set (tables (snd (toggleLike (Some u) postId n1 t1
            (c, \<lparr>online = True, tables = db\<rparr>))))
          = (if (postId, u) \<in> like_set db then like_set db - {(postId, u)}
             else insert (postId, u) (like_set db))
       \<and> like_set (tables (snd (toggleLike (Some u) postId n2 t2
            (toggleLike (Some u) postId n1 t1 (c, \<lparr>online = True, tables = db\<rparr>)))))
          = like_set db"
proof -
  note vis = assms(2)
  then have post: "has_post db postId"
    using has_post_visible by blast
  note e0 = assms(1)
  show ?thesis
  proof (cases "(postId, u) \<in> like_set db")
    case True
    define db1 where "db1 = db\<lparr>likes := filter (\<lambda>l. \<not> (l_post_id l = postId \<and> l_user_id l = u))
                                              (likes db)\<rparr>"
    have w1: "toggleLike (Some u) postId n1 t1 (c, \<lparr>online = True, tables = db\<rparr>) =
        (fetchPosts (Some u) c \<lparr>online = True, tables = db1\<rparr>, \<lparr>online = True, tables = db1\<rparr>)"
      using True e0 by (simp add: toggleLike_online likes_delete_own db1_def)
    have s1: "like_set db1 = like_set db - {(postId, u)}"
      unfolding db1_def by (rule like_set_delete)
    have "posts_visible (Some u) db1 = posts_visible (Some u) db"
      by (simp add: db1_def posts_visible_likes)
    with vis have d1: "\<exists>v \<in> set (feed_posts (fetchPosts (Some u) c \<lparr>online = True, tables = db1\<rparr>)).
        p_id (pv_row v) = postId"
      by (simp add: displayed_iff)
    have e1: "\<not> existingLike (feed_posts (fetchPosts (Some u) c \<lparr>online = True, tables = db1\<rparr>))
        postId u"
      using existingLike_fetched [OF d1, of u] s1 by simp
    have pre: "\<not> (\<exists>l \<in> set (likes db1). l_id l = n2)" "(postId, u) \<notin> like_set db1"
      "has_post db1 postId" "has_profile db1 u"
      using assms(3,5) post s1 by (auto simp: db1_def has_post_def has_profile_def)
    have "tables (snd (toggleLike (Some u) postId n2 t2
        (fetchPosts (Some u) c \<lparr>online = True, tables = db1\<rparr>, \<lparr>online = True, tables = db1\<rparr>)))
        = db1\<lparr>likes := likes db1 @ [\<lparr>l_id = n2, l_post_id = postId, l_user_id = u,
                                        l_created_at = t2\<rparr>]\<rparr>"
      using e1 by (simp add: toggleLike_online likes_insert_own [OF pre])
    then have "like_set (tables (snd (toggleLike (Some u) postId n2 t2
        (fetchPosts (Some u) c \<lparr>online = True, tables = db1\<rparr>, \<lparr>online = True, tables = db1\<rparr>))))
        = insert (postId, u) (like_set db1)"
      by (simp only: like_set_append)
    with True s1 w1 show ?thesis by auto
  next
    case False
    define db1 where "db1 = db\<lparr>likes := likes db @ [\<lparr>l_id = n1, l_post_id = postId,
                                                        l_user_id = u, l_created_at = t1\<rparr>]\<rparr>"
    have w1: "toggleLike (Some u) postId n1 t1 (c, \<lparr>online = True, tables = db\<rparr>) =
        (fetchPosts (Some u) c \<lparr>online = True, tables = db1\<rparr>, \<lparr>online = True, tables = db1\<rparr>)"
      using False e0 by (simp add: toggleLike_online likes_insert_own [OF assms(4) False post assms(3)]
          db1_def)
    have s1: "like_set db1 = insert (postId, u) (like_set db)"
      unfolding db1_def by (rule like_set_append)
    have "posts_visible (Some u) db1 = posts_visible (Some u) db"
      by (simp add: db1_def posts_visible_likes)
    with vis have d1: "\<exists>v \<in> set (feed_posts (fetchPosts (Some u) c \<lparr>online = True, tables = db1\<rparr>)).
        p_id (pv_row v) = postId"
      by (simp add: displayed_iff)
    have e1: "existingLike (feed_posts (fetchPosts (Some u) c \<lparr>online = True, tables = db1\<rparr>))
        postId u"
      using existingLike_fetched [OF d1, of u] s1 by simp
    have "tables (snd (toggleLike (Some u) postId n2 t2
        (fetchPosts (Some u) c \<lparr>online = True, tables = db1\<rparr>, \<lparr>online = True, tables = db1\<rparr>)))
        = db1\<lparr>likes := filter (\<lambda>l. \<not> (l_post_id l = postId \<and> l_user_id l = u)) (likes db1)\<rparr>"
      using e1 by (simp add: toggleLike_online likes_delete_own)
    then have "like_set (tables (snd (toggleLike (Some u) postId n2 t2
        (fetchPosts (Some u) c \<lparr>online = True, tables = db1\<rparr>, \<lparr>online = True, tables = db1\<rparr>))))
        = like_set db1 - {(postId, u)}"
      by (simp only: like_set_delete)
    with False s1 w1 show ?thesis by auto
  qed
qed


lemma post1_displayed:
  "\<exists>v \<in> set (feed_posts (fetchPosts (Some w) c0 \<lparr>online = True, tables = db_social\<rparr>)).
      p_id (pv_row v) = ''p1''"
proof -
  have "post1 \<in> set (posts_visible (Some w) db_social)" "p_id post1 = ''p1''"
    by (simp_all add: set_posts_visible passes_posts_select_policy example_defs)
  then show ?thesis
    unfolding displayed_iff by blast
qed

lemma post1_visible_likes:
  "\<exists>p \<in> set (posts_visible (Some w) (db_social\<lparr>likes := ls\<rparr>)). p_id p = ''p1''"
proof -
  have "post1 \<in> set (posts_visible (Some w) db_social)" "p_id post1 = ''p1''"
    by (simp_all add: set_posts_visible passes_posts_select_policy example_defs)
  then show ?thesis
    unfolding posts_visible_likes by blast
qed

lemma post1_visible: "\<exists>p \<in> set (posts_visible (Some w) db_social). p_id p = ''p1''"
  using post1_visible_likes [of w "likes db_social"] by simp

lemma like_set_db_social: "like_set (db_social\<lparr>likes := ls\<rparr>) = set (map (\<lambda>l. (l_post_id l, l_user_id l)) ls)"
  by (simp add: like_set_def)

lemma carol_list_not_liked:
  "\<not> existingLike (feed_posts (fetchPosts (Some ''carol'') feed_initial
        \<lparr>online = True, tables = db_social\<rparr>)) ''p1'' ''carol''"
proof -
  have "like_set db_social = {(''p1'', ''bob'')}"
    by (simp add: like_set_def example_defs)
  then show ?thesis
    using existingLike_fetched [OF post1_displayed [of "''carol''" feed_initial], of "''carol''"]
    by simp
qed

lemma toggleLike_offline:
  "toggleLike (Some u) pid n t (c, \<lparr>online = False, tables = db\<rparr>) =
     (fetchPosts (Some u) c \<lparr>online = False, tables = db\<rparr>, \<lparr>online = False, tables = db\<rparr>)"
  by (simp add: toggleLike_def Let_def mutate_def)

theorem toggleLike_twice_witness:
  "like_set (tables (snd (toggleLike (Some ''carol'') ''p1'' ''l3'' 41
        (toggleLike (Some ''carol'') ''p1'' ''l2'' 30
           (fetchPosts (Some ''carol'') feed_initial \<lparr>online = True, tables = db_social\<rparr>,
            \<lparr>online = True, tables = db_social\<rparr>))))) = {(''p1'', ''bob'')}
   \<and> like_set (tables (snd (toggleLike (Some ''carol'') ''p1'' ''l3'' 40
        (fetchPosts (Some ''carol'') feed_initial \<lparr>online = True, tables = db_social\<rparr>,
         \<lparr>online = True, tables = db_social\<lparr>likes := [like1, like_alice]\<rparr>\<rparr>))))
       = {(''p1'', ''carol''), (''p1'', ''bob''), (''p1'', ''alice'')}
   \<and> like_set (tables (snd (toggleLike (Some ''carol'') ''p1'' ''l4'' 41
        (toggleLike (Some ''carol'') ''p1'' ''l3'' 40
           (fetchPosts (Some ''carol'') feed_initial \<lparr>online = True, tables = db_social\<rparr>,
            \<lparr>online = True, tables = db_social\<lparr>likes := [like1, like_alice]\<rparr>\<rparr>)))))
       = {(''p1'', ''bob''), (''p1'', ''alice'')}"
proof -
  let ?c = "fetchPosts (Some ''carol'') feed_initial \<lparr>online = True, tables = db_social\<rparr>"
  let ?db = "db_social\<lparr>likes := [like1, like_alice]\<rparr>"
  have s0: "like_set db_social = {(''p1'', ''bob'')}"
    by (simp add: like_set_def example_defs)
  have s: "like_set ?db = {(''p1'', ''bob''), (''p1'', ''alice'')}"
    by (simp add: like_set_db_social like1_def like_alice_def)
  have a0: "existingLike (feed_posts ?c) ''p1'' ''carol'' \<longleftrightarrow> (''p1'', ''carol'') \<in> like_set db_social"
    using carol_list_not_liked s0 by simp
  have a: "existingLike (feed_posts ?c) ''p1'' ''carol'' \<longleftrightarrow> (''p1'', ''carol'') \<in> like_set ?db"
    using carol_list_not_liked s by simp
  have pr0: "has_profile db_social ''carol''"
    by (simp add: has_profile_def example_defs)
  have pr: "has_profile ?db ''carol''"
    by (simp add: has_profile_def example_defs)
  have fresh0: "\<not> (\<exists>l \<in> set (likes db_social). l_id l = ''l2'')"
    "\<not> (\<exists>l \<in> set (likes db_social). l_id l = ''l3'')"
    by (simp_all add: example_defs)
  have fresh: "\<not> (\<exists>l \<in> set (likes ?db). l_id l = ''l3'')"
    "\<not> (\<exists>l \<in> set (likes ?db). l_id l = ''l4'')"
    by (simp_all add: like1_def like_alice_def)
  show ?thesis
    using toggleLike_twice [of ?c "''p1''" "''carol''" db_social "''l2''" "''l3''" 30 41,
        OF a0 post1_visible pr0 fresh0]
      toggleLike_twice [of ?c "''p1''" "''carol''" ?db "''l3''" "''l4''" 40 41,
        OF a post1_visible_likes pr fresh] s0 s
    by auto
qed

text \<open>
  The claim as stated holds of every two toggles in succession. \<open>toggleLike\<close> decides on
  the component's posts and does not look at the statement's answer. Carol's feed was
  fetched when she did not like \<open>p1\<close>. If she has liked it since in another session, her
  two toggles end with her like gone. If her second click comes on the posts the first
  one saw, or her first toggle does not reach the store, they end with her like in.
\<close>

theorem toggleLike_twice_from_stale_posts:
  "like_set (db_social\<lparr>likes := [like1, like_carol]\<rparr>) = {(''p1'', ''bob''), (''p1'', ''carol'')}
   \<and> like_set (tables (snd (toggleLike (Some ''carol'') ''p1'' ''l4'' 41
        (toggleLike (Some ''carol'') ''p1'' ''l3'' 40
           (fetchPosts (Some ''carol'') feed_initial \<lparr>online = True, tables = db_social\<rparr>,
            \<lparr>online = True, tables = db_social\<lparr>likes := [like1, like_carol]\<rparr>\<rparr>)))))
       = {(''p1'', ''bob'')}
   \<and> like_set db_social = {(''p1'', ''bob'')}
   \<and> like_set (tables (snd (toggleLike (Some ''carol'') ''p1'' ''l3'' 31
        (fetchPosts (Some ''carol'') feed_initial \<lparr>online = True, tables = db_social\<rparr>,
         snd (toggleLike (Some ''carol'') ''p1'' ''l2'' 30
           (fetchPosts (Some ''carol'') feed_initial \<lparr>online = True, tables = db_social\<rparr>,
            \<lparr>online = True, tables = db_social\<rparr>))))))
       = {(''p1'', ''bob''), (''p1'', ''carol'')}
   \<and> like_set (tables (snd (toggleLike (Some ''carol'') ''p1'' ''l3'' 31
        (fst (toggleLike (Some ''carol'') ''p1'' ''l2'' 30
           (fetchPosts (Some ''carol'') feed_initial \<lparr>online = True, tables = db_social\<rparr>,
            \<lparr>online = False, tables = db_social\<rparr>)),
         \<lparr>online = True, tables = db_social\<rparr>))))
       = {(''p1'', ''bob''), (''p1'', ''carol'')}"
proof -
  let ?c = "fetchPosts (Some ''carol'') feed_initial \<lparr>online = True, tables = db_social\<rparr>"
  let ?db = "db_social\<lparr>likes := [like1, like_carol]\<rparr>"
  have s0: "like_set db_social = {(''p1'', ''bob'')}"
    by (simp add: like_set_def example_defs)
  have s: "like_set ?db = {(''p1'', ''bob''), (''p1'', ''carol'')}"
    by (simp add: like_set_db_social like1_def like_carol_def)
  have pr: "has_post db_social ''p1''" "has_profile db_social ''carol''"
    by (simp_all add: has_post_def has_profile_def example_defs)
  have l: "likes db_social = [like1]"
    by (simp add: example_defs)
  have fresh: "\<not> (\<exists>l \<in> set (likes db_social). l_id l = ''l2'')"
    "\<not> (\<exists>l \<in> set (likes db_social). l_id l = ''l3'')"
    by (simp_all add: l like1_def)
  have nl: "(''p1'', ''carol'') \<notin> like_set db_social"
    by (simp add: s0)
  have ins: "snd (likes_insert (Some ''carol'') ''l2'' 30 ''p1'' ''carol'' db_social) = ?db"
    by (simp add: likes_insert_own [OF fresh(1) nl pr] l like_carol_def)
  have ins3: "like_set (snd (likes_insert (Some ''carol'') ''l3'' 31 ''p1'' ''carol'' db_social))
      = {(''p1'', ''bob''), (''p1'', ''carol'')}"
    unfolding likes_insert_own [OF fresh(2) nl pr] like_set_append s0 by auto
  have dup: "snd (likes_insert (Some ''carol'') n t ''p1'' ''carol'' ?db) = ?db" for n t
    by (simp add: likes_insert_duplicate like_carol_def)
  \<comment> \<open>a list fetched before carol's like in another session\<close>
  have w1: "toggleLike (Some ''carol'') ''p1'' ''l3'' 40 (?c, \<lparr>online = True, tables = ?db\<rparr>) =
      (fetchPosts (Some ''carol'') ?c \<lparr>online = True, tables = ?db\<rparr>, \<lparr>online = True, tables = ?db\<rparr>)"
    using carol_list_not_liked by (simp add: toggleLike_online dup)
  have d1: "\<exists>v \<in> set (feed_posts (fetchPosts (Some ''carol'') ?c \<lparr>online = True, tables = ?db\<rparr>)).
      p_id (pv_row v) = ''p1''"
    unfolding displayed_iff by (rule post1_visible_likes)
  have e1: "existingLike (feed_posts (fetchPosts (Some ''carol'') ?c \<lparr>online = True, tables = ?db\<rparr>))
      ''p1'' ''carol''"
    using existingLike_fetched [OF d1, of "''carol''"] s by simp
  have "tables (snd (toggleLike (Some ''carol'') ''p1'' ''l4'' 41
      (fetchPosts (Some ''carol'') ?c \<lparr>online = True, tables = ?db\<rparr>, \<lparr>online = True, tables = ?db\<rparr>)))
      = ?db\<lparr>likes := filter (\<lambda>l. \<not> (l_post_id l = ''p1'' \<and> l_user_id l = ''carol'')) (likes ?db)\<rparr>"
    using e1 by (simp add: toggleLike_online likes_delete_own)
  then have "like_set (tables (snd (toggleLike (Some ''carol'') ''p1'' ''l4'' 41
      (fetchPosts (Some ''carol'') ?c \<lparr>online = True, tables = ?db\<rparr>, \<lparr>online = True, tables = ?db\<rparr>))))
      = like_set ?db - {(''p1'', ''carol'')}"
    by (simp only: like_set_delete)
  with w1 s have stale: "like_set (tables (snd (toggleLike (Some ''carol'') ''p1'' ''l4'' 41
        (toggleLike (Some ''carol'') ''p1'' ''l3'' 40 (?c, \<lparr>online = True, tables = ?db\<rparr>)))))
       = {(''p1'', ''bob'')}"
    by auto
  \<comment> \<open>a second click on the list of the first\<close>
  have f1: "snd (toggleLike (Some ''carol'') ''p1'' ''l2'' 30 (?c, \<lparr>online = True, tables = db_social\<rparr>))
      = \<lparr>online = True, tables = ?db\<rparr>"
    using carol_list_not_liked by (simp add: toggleLike_online ins)
  have same: "like_set (tables (snd (toggleLike (Some ''carol'') ''p1'' ''l3'' 31
        (?c, snd (toggleLike (Some ''carol'') ''p1'' ''l2'' 30
           (?c, \<lparr>online = True, tables = db_social\<rparr>))))))
       = {(''p1'', ''bob''), (''p1'', ''carol'')}"
    unfolding f1 using carol_list_not_liked by (simp add: toggleLike_online dup s)
  \<comment> \<open>a first toggle that does not reach the store\<close>
  have f2: "feed_posts (fst (toggleLike (Some ''carol'') ''p1'' ''l2'' 30
      (?c, \<lparr>online = False, tables = db_social\<rparr>))) = feed_posts ?c"
    by (simp add: toggleLike_offline fetchPosts_offline)
  have off: "like_set (tables (snd (toggleLike (Some ''carol'') ''p1'' ''l3'' 31
        (fst (toggleLike (Some ''carol'') ''p1'' ''l2'' 30
           (?c, \<lparr>online = False, tables = db_social\<rparr>)),
         \<lparr>online = True, tables = db_social\<rparr>))))
       = {(''p1'', ''bob''), (''p1'', ''carol'')}"
    using carol_list_not_liked by (simp add: toggleLike_online f2 ins3)
  show ?thesis
    using s s0 stale same off by simp
qed

end
